theory Spec2Isabelle
  imports Complex_Main "HOL-Library.AList" "HOL-Library.Log_Nat"
begin

section \<open>JavaScript numbers\<close>

text \<open>
  A JavaScript \<open>number\<close> is an IEEE 754 binary64 value. The finite ones are rationals
  of the form \<open>m * 2^e\<close> with \<open>\<bar>m\<bar> < 2^53\<close>; the model keeps their exact value in
  \<open>Finite\<close>. Negative zero is identified with zero: nothing in the modelled code
  divides by a computed zero or inspects the sign of a zero.
\<close>

datatype number = NaN | PosInfinity | NegInfinity | Finite rat

definition pow2 :: "int \<Rightarrow> rat" where
  "pow2 e = (if 0 \<le> e then 2 ^ nat e else 1 / 2 ^ nat (- e))"

text \<open>\<open>ilog2 x\<close> is the binary exponent of a nonzero \<open>x\<close>: \<open>2^e \<le> \<bar>x\<bar> < 2^(e+1)\<close>.\<close>

definition ilog2 :: "rat \<Rightarrow> int" where
  "ilog2 x =
     (let p = fst (quotient_of \<bar>x\<bar>); q = snd (quotient_of \<bar>x\<bar>);
          d = bitlen p - bitlen q
      in if pow2 d \<le> \<bar>x\<bar> then d else d - 1)"

definition round_half_even :: "rat \<Rightarrow> int" where
  "round_half_even x =
     (let n = \<lfloor>x\<rfloor>; r = x - of_int n
      in if r < 1 / 2 then n
         else if 1 / 2 < r then n + 1
         else if even n then n else n + 1)"

text \<open>
  \<open>fl x\<close> is the binary64 value nearest to the exact result \<open>x\<close> of an operation
  (round to nearest, ties to even): 53 significant bits, least exponent \<open>-1022\<close>
  (below it the spacing stays \<open>2^-1074\<close>), overflow to an infinity.
\<close>

definition fl :: "rat \<Rightarrow> number" where
  "fl x =
     (if x = 0 then Finite 0
      else
        let e = max (ilog2 x) (- 1022);
            q = pow2 (e - 52);
            y = of_int (round_half_even (x / q)) * q
        in if 2 ^ 1024 \<le> \<bar>y\<bar> then (if 0 < x then PosInfinity else NegInfinity)
           else Finite y)"

fun sign_of :: "number \<Rightarrow> int" where
  "sign_of NaN = 0"
| "sign_of PosInfinity = 1"
| "sign_of NegInfinity = - 1"
| "sign_of (Finite x) = (if 0 < x then 1 else if x < 0 then - 1 else 0)"

definition infinity_of_sign :: "int \<Rightarrow> number" where
  "infinity_of_sign s = (if 0 < s then PosInfinity else NegInfinity)"

fun is_finite :: "number \<Rightarrow> bool" where
  "is_finite (Finite x) = True"
| "is_finite a = False"

text \<open>The operators \<open>*\<close>, \<open>+\<close>, \<open>/\<close> and \<open>>\<close> of the language on numbers.\<close>

fun js_times :: "number \<Rightarrow> number \<Rightarrow> number" where
  "js_times (Finite x) (Finite y) = fl (x * y)"
| "js_times a b =
     (if a = NaN \<or> b = NaN \<or> sign_of a * sign_of b = 0 then NaN
      else infinity_of_sign (sign_of a * sign_of b))"

fun js_plus :: "number \<Rightarrow> number \<Rightarrow> number" where
  "js_plus (Finite x) (Finite y) = fl (x + y)"
| "js_plus a b =
     (if a = NaN \<or> b = NaN then NaN
      else if is_finite a then b
      else if is_finite b then a
      else if a = b then a else NaN)"

text \<open>A zero divisor is taken to be positive zero; the only division of the source is by the literal 100.\<close>

fun js_divide :: "number \<Rightarrow> number \<Rightarrow> number" where
  "js_divide (Finite x) (Finite y) =
     (if y = 0 then (if x = 0 then NaN else infinity_of_sign (sign_of (Finite x)))
      else fl (x / y))"
| "js_divide a b =
     (if a = NaN \<or> b = NaN then NaN
      else if is_finite a then Finite 0
      else if is_finite b then infinity_of_sign (sign_of a * (if sign_of b < 0 then - 1 else 1))
      else NaN)"

fun js_greater :: "number \<Rightarrow> number \<Rightarrow> bool" where
  "js_greater (Finite x) (Finite y) = (y < x)"
| "js_greater a b = (a \<noteq> NaN \<and> b \<noteq> NaN \<and> sign_of b < sign_of a \<and> (\<not> is_finite a \<or> \<not> is_finite b))"

definition js_less :: "number \<Rightarrow> number \<Rightarrow> bool" where
  "js_less a b = js_greater b a"

text \<open>\<open>Math.round\<close>: the nearest integer, a tie going towards positive infinity.\<close>

fun Math_round :: "number \<Rightarrow> number" where
  "Math_round (Finite x) = Finite (of_int (round x))"
| "Math_round a = a"

fun Number_isInteger :: "number \<Rightarrow> bool" where
  "Number_isInteger (Finite x) = (x = of_int \<lfloor>x\<rfloor>)"
| "Number_isInteger a = False"

text \<open>
  \<open>parseInt(s, 10)\<close>: leading white space is skipped, one sign is read, then the longest
  run of decimal digits; no digit gives \<open>NaN\<close>. A string is a list of 8-bit code units,
  so the white space is the white space and the line ends among them: tab, line feed,
  vertical tab, form feed, carriage return, space and the no-break space \<open>0xA0\<close>.
\<close>

definition isWhiteSpace :: "char \<Rightarrow> bool" where
  "isWhiteSpace c =
     (c \<in> set [CHR 0x09, CHR 0x0A, CHR 0x0B, CHR 0x0C, CHR 0x0D, CHR '' '', CHR 0xA0])"

definition isDigit :: "char \<Rightarrow> bool" where
  "isDigit c = (c \<in> set ''0123456789'')"

definition digit_value :: "char \<Rightarrow> nat" where
  "digit_value c = of_char c - of_char CHR ''0''"

definition parseInt10 :: "string \<Rightarrow> number" where
  "parseInt10 inputString =
     (let S = dropWhile isWhiteSpace inputString;
          sign = (if S \<noteq> [] \<and> hd S = CHR ''-'' then - 1 else 1 :: int);
          S' = (if S \<noteq> [] \<and> (hd S = CHR ''+'' \<or> hd S = CHR ''-'') then tl S else S);
          Z = takeWhile isDigit S'
      in if Z = [] then NaN
         else fl (of_int (sign * int (foldl (\<lambda>a c. 10 * a + digit_value c) 0 Z))))"

section \<open>Pricing (services/pricingService.ts)\<close>

definition FEMALE_TICKET_PRICE :: number where
  "FEMALE_TICKET_PRICE = Finite 1"

definition MALE_TICKET_PRICE :: number where
  "MALE_TICKET_PRICE = Finite 2"

text \<open>The literal \<open>0.08\<close> denotes the binary64 value nearest to 8/100.\<close>

definition FEE_PERCENTAGE :: number where
  "FEE_PERCENTAGE = fl (8 / 100)"

record PricingResult =
  subtotal :: number
  fee :: number
  total :: number

definition calculatePricing :: "number \<Rightarrow> number \<Rightarrow> PricingResult" where
  "calculatePricing femaleQty maleQty =
     (let subtotal' = js_plus (js_times femaleQty FEMALE_TICKET_PRICE) (js_times maleQty MALE_TICKET_PRICE);
          fee' = js_divide (Math_round (js_times (js_times subtotal' FEE_PERCENTAGE) (Finite 100))) (Finite 100);
          total' = js_plus subtotal' fee'
      in \<lparr>subtotal = subtotal', fee = fee', total = total'\<rparr>)"

definition dollarsToCents :: "number \<Rightarrow> number" where
  "dollarsToCents dollars = Math_round (js_times dollars (Finite 100))"

section \<open>The order store (services/orderStore.ts, services/inMemoryOrderStore.ts)\<close>

datatype OrderStatus = Valid | Used | Cancelled

record Order =
  paymentIntentId :: string
  qrToken :: string
  status :: OrderStatus
  createdAt :: nat
  femaleQty :: number
  maleQty :: number

text \<open>
  The \<open>Map\<close> of orders is the list of its entries in insertion order: \<open>set\<close> replaces
  the value of a key already present and appends a new key otherwise
  (\<open>AList.update\<close>), \<open>get\<close> is \<open>map_of\<close>. The \<open>Set\<close> of processed identifiers is a set.
\<close>

record InMemoryOrderStore =
  orders :: "(string \<times> Order) list"
  processedPaymentIntents :: "string set"

definition new_InMemoryOrderStore :: InMemoryOrderStore where
  "new_InMemoryOrderStore = \<lparr>orders = [], processedPaymentIntents = {}\<rparr>"

definition saveOrder :: "Order \<Rightarrow> InMemoryOrderStore \<Rightarrow> InMemoryOrderStore" where
  "saveOrder order this = this\<lparr>orders := AList.update (paymentIntentId order) order (orders this)\<rparr>"

text \<open>An \<open>Order\<close> object is truthy, so \<open>order || null\<close> is \<open>null\<close> exactly when the key is absent.\<close>

definition getOrderByPaymentIntentId :: "string \<Rightarrow> InMemoryOrderStore \<Rightarrow> Order option" where
  "getOrderByPaymentIntentId pid this = map_of (orders this) pid"

definition isPaymentIntentProcessed :: "string \<Rightarrow> InMemoryOrderStore \<Rightarrow> bool" where
  "isPaymentIntentProcessed pid this = (pid \<in> processedPaymentIntents this)"

definition markPaymentIntentProcessed :: "string \<Rightarrow> InMemoryOrderStore \<Rightarrow> InMemoryOrderStore" where
  "markPaymentIntentProcessed pid this =
     this\<lparr>processedPaymentIntents := insert pid (processedPaymentIntents this)\<rparr>"

text \<open>A call of one of the four methods, and the store it leaves behind: the two queries assign nothing.\<close>

datatype store_call =
    SaveOrder Order
  | GetOrderByPaymentIntentId string
  | IsPaymentIntentProcessed string
  | MarkPaymentIntentProcessed string

fun store_after :: "store_call \<Rightarrow> InMemoryOrderStore \<Rightarrow> InMemoryOrderStore" where
  "store_after (SaveOrder order) this = saveOrder order this"
| "store_after (GetOrderByPaymentIntentId pid) this = this"
| "store_after (IsPaymentIntentProcessed pid) this = this"
| "store_after (MarkPaymentIntentProcessed pid) this = markPaymentIntentProcessed pid this"

text \<open>The stores that calls of the methods can produce from the empty store.\<close>

inductive store_reachable :: "InMemoryOrderStore \<Rightarrow> bool" where
  initial: "store_reachable new_InMemoryOrderStore"
| call: "store_reachable this \<Longrightarrow> store_reachable (store_after c this)"

text \<open>The number of orders held for an identifier, by key and by the identifier inside the order.\<close>

definition orders_keyed :: "string \<Rightarrow> InMemoryOrderStore \<Rightarrow> nat" where
  "orders_keyed pid this = length (filter (\<lambda>entry. fst entry = pid) (orders this))"

definition orders_for :: "string \<Rightarrow> InMemoryOrderStore \<Rightarrow> nat" where
  "orders_for pid this = length (filter (\<lambda>entry. paymentIntentId (snd entry) = pid) (orders this))"

section \<open>The world of the request handlers\<close>

text \<open>
  What the handlers call outside themselves, as data: the webhook secret of the
  environment, the signature check and the intent creation of the payment library, and the
  image renderer. An exception thrown by a collaborator is the \<open>Inl\<close> (or \<open>None\<close>) result.
\<close>

record PaymentIntent =
  id_PaymentIntent :: string
  client_secret :: "string option"
  metadata :: "(string \<times> string) list"

record StripeEvent =
  id_Event :: string
  type_Event :: string
  data_object :: PaymentIntent

datatype Language = en | es | pt_BR

text \<open>
  The parameters of the intent creation. The metadata holds the decimal renderings of
  the numbers; the model keeps the numbers themselves.
\<close>

record PaymentIntentCreateParams =
  amount :: number
  currency :: string
  automatic_payment_methods_enabled :: bool
  metadata_femaleQty :: number
  metadata_maleQty :: number
  metadata_subtotal :: number
  metadata_fee :: number
  metadata_language :: Language

datatype thrown = StripeError string | OtherError string

record externals =
  STRIPE_WEBHOOK_SECRET :: "string option"
  constructEvent :: "string \<Rightarrow> string \<Rightarrow> string \<Rightarrow> thrown + StripeEvent"
  paymentIntents_create :: "PaymentIntentCreateParams \<Rightarrow> thrown + PaymentIntent"
  toDataURL :: "string \<Rightarrow> string option"

text \<open>
  The calls a handler makes, in the order it makes them, are kept in \<open>calls\<close>. The
  random bytes of the operating system are the stream \<open>entropy\<close>, read from
  \<open>entropy_pos\<close> on; \<open>clock\<close> is the time in milliseconds.
\<close>

datatype call =
    OrderStore store_call
  | GenerateQRToken string
  | NewDate
  | PaymentIntentsCreate PaymentIntentCreateParams
  | GenerateQRCodeDataUrl string

record world =
  orderStore :: InMemoryOrderStore
  entropy :: "nat \<Rightarrow> nat"
  entropy_pos :: nat
  clock :: nat
  calls :: "call list"

definition invoke :: "store_call \<Rightarrow> world \<Rightarrow> world" where
  "invoke c w = w\<lparr>orderStore := store_after c (orderStore w), calls := calls w @ [OrderStore c]\<rparr>"

definition new_Date :: "world \<Rightarrow> nat \<times> world" where
  "new_Date w = (clock w, w\<lparr>calls := calls w @ [NewDate]\<rparr>)"

section \<open>QR tokens (services/qrService.ts)\<close>

definition randomBytes :: "nat \<Rightarrow> world \<Rightarrow> nat list \<times> world" where
  "randomBytes n w =
     (map (\<lambda>i. entropy w (entropy_pos w + i) mod 256) [0..<n],
      w\<lparr>entropy_pos := entropy_pos w + n\<rparr>)"

text \<open>A byte is below 256, so each of its two hexadecimal digits is below 16.\<close>

definition hex_digit :: "nat \<Rightarrow> char" where
  "hex_digit d = ''0123456789abcdef'' ! d"

definition toString_hex :: "nat list \<Rightarrow> string" where
  "toString_hex bytes = concat (map (\<lambda>b. [hex_digit (b div 16), hex_digit (b mod 16)]) bytes)"

definition generateQRToken :: "world \<Rightarrow> string \<times> world" where
  "generateQRToken w =
     (let (bytes, w') = randomBytes 32 w; token = toString_hex bytes
      in (token, w'\<lparr>calls := calls w' @ [GenerateQRToken token]\<rparr>))"

definition generateQRCodeDataUrl :: "externals \<Rightarrow> string \<Rightarrow> world \<Rightarrow> (string + string) \<times> world" where
  "generateQRCodeDataUrl ext token w =
     (case toDataURL ext token of
        None \<Rightarrow> Inl ''Failed to generate QR code image''
      | Some dataUrl \<Rightarrow> Inr dataUrl,
      w\<lparr>calls := calls w @ [GenerateQRCodeDataUrl token]\<rparr>)"

section \<open>Replies\<close>

datatype zod_message = Message string | DefaultMessage

record detail =
  field :: string
  message :: zod_message

datatype body =
    ErrorBody string
  | ErrorMessage string string
  | ValidationFailed "detail list"
  | Received bool
  | Pending
  | Ready string string
  | IntentCreated "string option" string PricingResult

record reply =
  statusCode :: nat
  payload :: body

definition send :: "nat \<Rightarrow> body \<Rightarrow> reply" where
  "send code b = \<lparr>statusCode = code, payload = b\<rparr>"

section \<open>The webhook (plugins/stripe.ts, routes/webhook.ts)\<close>

definition verifyWebhookSignature :: "externals \<Rightarrow> string \<Rightarrow> string \<Rightarrow> thrown + StripeEvent" where
  "verifyWebhookSignature ext payload' signature =
     (case STRIPE_WEBHOOK_SECRET ext of
        None \<Rightarrow> Inl (OtherError ''STRIPE_WEBHOOK_SECRET environment variable is required'')
      | Some webhookSecret \<Rightarrow>
          if webhookSecret = [] then Inl (OtherError ''STRIPE_WEBHOOK_SECRET environment variable is required'')
          else constructEvent ext payload' signature webhookSecret)"

text \<open>\<open>m.key || '0'\<close>: the default stands in for a missing key and for the empty string.\<close>

definition or_default :: "string option \<Rightarrow> string \<Rightarrow> string" where
  "or_default v d = (case v of None \<Rightarrow> d | Some s \<Rightarrow> if s = [] then d else s)"

definition handlePaymentIntentSucceeded :: "PaymentIntent \<Rightarrow> world \<Rightarrow> world" where
  "handlePaymentIntentSucceeded paymentIntent w0 =
     (let pid = id_PaymentIntent paymentIntent;
          alreadyProcessed = isPaymentIntentProcessed pid (orderStore w0);
          w1 = invoke (IsPaymentIntentProcessed pid) w0
      in if alreadyProcessed then w1
         else
           let w2 = invoke (MarkPaymentIntentProcessed pid) w1;
               md = metadata paymentIntent;
               fq = parseInt10 (or_default (map_of md ''femaleQty'') ''0'');
               mq = parseInt10 (or_default (map_of md ''maleQty'') ''0'');
               (token, w3) = generateQRToken w2;
               (now, w4) = new_Date w3
           in invoke (SaveOrder \<lparr>paymentIntentId = pid, qrToken = token, status = Valid,
                                  createdAt = now, femaleQty = fq, maleQty = mq\<rparr>) w4)"

record WebhookRequest =
  rawBody :: string
  stripe_signature :: "string option"

definition webhook_post :: "externals \<Rightarrow> WebhookRequest \<Rightarrow> world \<Rightarrow> reply \<times> world" where
  "webhook_post ext request w =
     (case stripe_signature request of
        None \<Rightarrow> (send 400 (ErrorBody ''Missing stripe-signature header''), w)
      | Some signature \<Rightarrow>
          if signature = [] then (send 400 (ErrorBody ''Missing stripe-signature header''), w)
          else
            (case verifyWebhookSignature ext (rawBody request) signature of
               Inl error \<Rightarrow> (send 400 (ErrorBody ''Webhook signature verification failed''), w)
             | Inr event \<Rightarrow>
                 (send 200 (Received True),
                  if type_Event event = ''payment_intent.succeeded''
                  then handlePaymentIntentSucceeded (data_object event) w
                  else w)))"

section \<open>The order query (routes/orders.ts)\<close>

definition startsWith :: "string \<Rightarrow> string \<Rightarrow> bool" where
  "startsWith s p = (take (length p) s = p)"

definition orders_get_qr :: "externals \<Rightarrow> string \<Rightarrow> world \<Rightarrow> reply \<times> world" where
  "orders_get_qr ext pid w =
     (if pid = [] \<or> \<not> startsWith pid ''pi_''
      then (send 400 (ErrorBody ''Invalid PaymentIntent ID format''), w)
      else
        let order = getOrderByPaymentIntentId pid (orderStore w);
            w1 = invoke (GetOrderByPaymentIntentId pid) w
        in case order of
             None \<Rightarrow> (send 200 Pending, w1)
           | Some found \<Rightarrow>
               (case generateQRCodeDataUrl ext (qrToken found) w1 of
                  (Inr qrImageDataUrl, w2) \<Rightarrow> (send 200 (Ready (qrToken found) qrImageDataUrl), w2)
                | (Inl error, w2) \<Rightarrow> (send 500 (ErrorBody ''Failed to generate QR code''), w2)))"

section \<open>The checkout (routes/checkout.ts)\<close>

text \<open>
  The request body as the framework hands it over: a parsed JSON value, or nothing. A
  property read of an object yields the last member of that name, as \<open>JSON.parse\<close> keeps it.
\<close>

datatype json =
    JNull
  | JBool bool
  | JNum number
  | JStr string
  | JArr "json list"
  | JObj "(string \<times> json) list"

definition property :: "(string \<times> json) list \<Rightarrow> string \<Rightarrow> json option" where
  "property members key = map_of (rev members) key"

text \<open>
  The schema library, as far as \<open>createIntentSchema\<close> uses it. Parsing a value yields
  the issues found and a status: \<open>Aborted\<close> (no value), \<open>Dirty\<close> (a value with issues) or
  \<open>Clean\<close>. An issue carries its path and the message of the schema, or
  \<open>DefaultMessage\<close> where the schema gives none and the library words it.
\<close>

record ZodIssue =
  path :: "string list"
  issue_message :: zod_message

datatype 'a parsed = Aborted | Dirty 'a | Clean 'a

definition with_issues :: "ZodIssue list \<Rightarrow> 'a \<Rightarrow> ZodIssue list \<times> 'a parsed" where
  "with_issues issues v = (issues, if issues = [] then Clean v else Dirty v)"

text \<open>\<open>z.number().int().min(0, msg)\<close> at the key \<open>key\<close>; \<open>None\<close> is \<open>undefined\<close>.\<close>

definition number_int_min0 :: "string \<Rightarrow> string \<Rightarrow> json option \<Rightarrow> ZodIssue list \<times> number parsed" where
  "number_int_min0 msg key input =
     (case input of
        Some (JNum n) \<Rightarrow>
          if n = NaN then ([\<lparr>path = [key], issue_message = DefaultMessage\<rparr>], Aborted)
          else with_issues
                 ((if \<not> Number_isInteger n then [\<lparr>path = [key], issue_message = DefaultMessage\<rparr>] else []) @
                  (if js_less n (Finite 0) then [\<lparr>path = [key], issue_message = Message msg\<rparr>] else []))
                 n
      | _ \<Rightarrow> ([\<lparr>path = [key], issue_message = DefaultMessage\<rparr>], Aborted))"

text \<open>\<open>z.enum(['en', 'es', 'pt-BR']).default('en')\<close> at the key \<open>key\<close>.\<close>

definition enum_language_default :: "string \<Rightarrow> json option \<Rightarrow> ZodIssue list \<times> Language parsed" where
  "enum_language_default key input =
     (case input of
        None \<Rightarrow> ([], Clean en)
      | Some (JStr s) \<Rightarrow>
          if s = ''en'' then ([], Clean en)
          else if s = ''es'' then ([], Clean es)
          else if s = ''pt-BR'' then ([], Clean pt_BR)
          else ([\<lparr>path = [key], issue_message = DefaultMessage\<rparr>], Aborted)
      | Some _ \<Rightarrow> ([\<lparr>path = [key], issue_message = DefaultMessage\<rparr>], Aborted))"

record CreateIntentBody =
  femaleQty_Body :: number
  maleQty_Body :: number
  language_Body :: Language

fun parsed_value :: "'a parsed \<Rightarrow> 'a option" where
  "parsed_value Aborted = None"
| "parsed_value (Dirty v) = Some v"
| "parsed_value (Clean v) = Some v"

text \<open>\<open>z.object({femaleQty, maleQty, language})\<close>: every member is parsed, the issues add up.\<close>

definition createIntentObject :: "json option \<Rightarrow> ZodIssue list \<times> CreateIntentBody parsed" where
  "createIntentObject input =
     (case input of
        Some (JObj members) \<Rightarrow>
          let (i1, f) = number_int_min0 ''Female quantity cannot be negative'' ''femaleQty''
                          (property members ''femaleQty'');
              (i2, m) = number_int_min0 ''Male quantity cannot be negative'' ''maleQty''
                          (property members ''maleQty'');
              (i3, l) = enum_language_default ''language'' (property members ''language'')
          in (case (parsed_value f, parsed_value m, parsed_value l) of
                (Some fv, Some mv, Some lv) \<Rightarrow>
                  with_issues (i1 @ i2 @ i3)
                    \<lparr>femaleQty_Body = fv, maleQty_Body = mv, language_Body = lv\<rparr>
              | _ \<Rightarrow> (i1 @ i2 @ i3, Aborted))
      | _ \<Rightarrow> ([\<lparr>path = [], issue_message = DefaultMessage\<rparr>], Aborted))"

text \<open>
  \<open>.refine(data => data.femaleQty > 0 || data.maleQty > 0, {message})\<close>: the check runs
  on every value the object schema yields, and not at all when that one aborted.
\<close>

definition at_least_one_ticket :: "ZodIssue list \<Rightarrow> CreateIntentBody \<Rightarrow> ZodIssue list \<times> CreateIntentBody parsed" where
  "at_least_one_ticket issues data =
     with_issues
       (issues @
        (if js_greater (femaleQty_Body data) (Finite 0) \<or> js_greater (maleQty_Body data) (Finite 0)
         then [] else [\<lparr>path = [], issue_message = Message ''At least one ticket must be selected''\<rparr>]))
       data"

definition createIntentSchema :: "json option \<Rightarrow> ZodIssue list \<times> CreateIntentBody parsed" where
  "createIntentSchema input =
     (case createIntentObject input of
        (issues, Aborted) \<Rightarrow> (issues, Aborted)
      | (issues, Dirty data) \<Rightarrow> at_least_one_ticket issues data
      | (issues, Clean data) \<Rightarrow> at_least_one_ticket issues data)"

definition safeParse :: "(json option \<Rightarrow> ZodIssue list \<times> 'a parsed) \<Rightarrow> json option \<Rightarrow> ZodIssue list + 'a" where
  "safeParse schema input =
     (case schema input of
        (issues, Clean v) \<Rightarrow> Inr v
      | (issues, _) \<Rightarrow> Inl issues)"

fun join :: "string list \<Rightarrow> string \<Rightarrow> string" where
  "join [] sep = []"
| "join [x] sep = x"
| "join (x # y # ys) sep = x @ sep @ join (y # ys) sep"

definition checkout_create_intent :: "externals \<Rightarrow> json option \<Rightarrow> world \<Rightarrow> reply \<times> world" where
  "checkout_create_intent ext request_body w =
     (case safeParse createIntentSchema request_body of
        Inl errors \<Rightarrow>
          (send 400 (ValidationFailed
             (map (\<lambda>e. \<lparr>field = join (path e) ''.'', message = issue_message e\<rparr>) errors)), w)
      | Inr data \<Rightarrow>
          let pricing = calculatePricing (femaleQty_Body data) (maleQty_Body data);
              amountInCents = dollarsToCents (total pricing);
              params = \<lparr>amount = amountInCents, currency = ''cad'',
                        automatic_payment_methods_enabled = True,
                        metadata_femaleQty = femaleQty_Body data,
                        metadata_maleQty = maleQty_Body data,
                        metadata_subtotal = subtotal pricing,
                        metadata_fee = fee pricing,
                        metadata_language = language_Body data\<rparr>;
              w1 = w\<lparr>calls := calls w @ [PaymentIntentsCreate params]\<rparr>
          in case paymentIntents_create ext params of
               Inr paymentIntent \<Rightarrow>
                 (send 200 (IntentCreated (client_secret paymentIntent) (id_PaymentIntent paymentIntent)
                    \<lparr>subtotal = subtotal pricing, fee = fee pricing, total = total pricing\<rparr>), w1)
             | Inl (StripeError e) \<Rightarrow>
                 (send 500 (ErrorMessage ''Payment service error''
                    ''Failed to create payment. Please try again.''), w1)
             | Inl (OtherError e) \<Rightarrow>
                 (send 500 (ErrorMessage ''Internal server error'' ''An unexpected error occurred.''), w1))"

section \<open>The running service\<close>

text \<open>
  The service starts with an empty store. A request to one of the three routes is
  handled to its end before the next one, and time passes between requests.
\<close>

definition initial_world :: "(nat \<Rightarrow> nat) \<Rightarrow> nat \<Rightarrow> world" where
  "initial_world random t =
     \<lparr>orderStore = new_InMemoryOrderStore, entropy = random, entropy_pos = 0, clock = t, calls = []\<rparr>"

inductive reachable :: "world \<Rightarrow> bool" where
  start: "reachable (initial_world random t)"
| webhook: "reachable w \<Longrightarrow> reachable (snd (webhook_post ext request w))"
| query: "reachable w \<Longrightarrow> reachable (snd (orders_get_qr ext pid w))"
| checkout: "reachable w \<Longrightarrow> reachable (snd (checkout_create_intent ext request_body w))"
| tick: "reachable w \<Longrightarrow> clock w \<le> t \<Longrightarrow> reachable (w\<lparr>clock := t\<rparr>)"

section \<open>Notions for the properties of the service\<close>

text \<open>
  At most one order per identifier: no key occurs twice among the entries, and every
  entry is filed under the identifier its order carries.
\<close>

definition at_most_one_order :: "InMemoryOrderStore \<Rightarrow> bool" where
  "at_most_one_order this =
     (distinct (map fst (orders this)) \<and>
      list_all (\<lambda>entry. paymentIntentId (snd entry) = fst entry) (orders this))"

text \<open>The identifiers that have an order are the processed ones.\<close>

definition finalized :: "InMemoryOrderStore \<Rightarrow> bool" where
  "finalized this = (at_most_one_order this \<and> set (map fst (orders this)) = processedPaymentIntents this)"

text \<open>\<open>preceded P Q cs\<close>: in the sequence \<open>cs\<close>, no \<open>Q\<close> comes unless a \<open>P\<close> has come before it.\<close>

fun preceded :: "('a \<Rightarrow> bool) \<Rightarrow> ('a \<Rightarrow> bool) \<Rightarrow> 'a list \<Rightarrow> bool" where
  "preceded P Q [] = True"
| "preceded P Q (c # cs) = (if P c then True else \<not> Q c \<and> preceded P Q cs)"

fun is_generateQRToken :: "call \<Rightarrow> bool" where
  "is_generateQRToken (GenerateQRToken token) = True"
| "is_generateQRToken c = False"

fun is_saveOrder :: "call \<Rightarrow> bool" where
  "is_saveOrder (OrderStore (SaveOrder order)) = True"
| "is_saveOrder c = False"

fun is_paymentIntents_create :: "call \<Rightarrow> bool" where
  "is_paymentIntents_create (PaymentIntentsCreate params) = True"
| "is_paymentIntents_create c = False"

text \<open>The calls made while the world went from \<open>w\<close> to \<open>w'\<close>.\<close>

definition calls_since :: "world \<Rightarrow> world \<Rightarrow> call list" where
  "calls_since w w' = drop (length (calls w)) (calls w')"

text \<open>The order that the finalization step builds for a notification in the world \<open>w\<close>.\<close>

definition built_order :: "PaymentIntent \<Rightarrow> world \<Rightarrow> Order" where
  "built_order paymentIntent w =
     \<lparr>paymentIntentId = id_PaymentIntent paymentIntent,
      qrToken = toString_hex (fst (randomBytes 32 w)),
      status = Valid,
      createdAt = clock w,
      femaleQty = parseInt10 (or_default (map_of (metadata paymentIntent) ''femaleQty'') ''0''),
      maleQty = parseInt10 (or_default (map_of (metadata paymentIntent) ''maleQty'') ''0'')\<rparr>"

text \<open>
  The price breakdown as the specification words it, in exact arithmetic: the subtotal of
  the quantities, the fee as 8 per cent of it rounded to two decimals, their sum, and the
  amount in minor units.
\<close>

definition spec_subtotal :: "nat \<Rightarrow> nat \<Rightarrow> rat" where
  "spec_subtotal f m = of_nat f * 1 + of_nat m * 2"

definition round_2_decimals :: "rat \<Rightarrow> rat" where
  "round_2_decimals x = of_int (round (x * 100)) / 100"

definition spec_fee :: "nat \<Rightarrow> nat \<Rightarrow> rat" where
  "spec_fee f m = round_2_decimals (spec_subtotal f m * (8 / 100))"

definition spec_total :: "nat \<Rightarrow> nat \<Rightarrow> rat" where
  "spec_total f m = spec_subtotal f m + spec_fee f m"

definition spec_minor_units :: "nat \<Rightarrow> nat \<Rightarrow> int" where
  "spec_minor_units f m = round (spec_total f m * 100)"

section \<open>Sample data\<close>

definition demo_order :: "string \<Rightarrow> string \<Rightarrow> Order" where
  "demo_order pid token =
     \<lparr>paymentIntentId = pid, qrToken = token, status = Valid, createdAt = 0,
      femaleQty = Finite 2, maleQty = Finite 1\<rparr>"

definition demo_intent :: "(string \<times> string) list \<Rightarrow> PaymentIntent" where
  "demo_intent md = \<lparr>id_PaymentIntent = ''pi_1'', client_secret = Some ''pi_1_secret_x'', metadata = md\<rparr>"

definition demo_event :: "(string \<times> string) list \<Rightarrow> StripeEvent" where
  "demo_event md =
     \<lparr>id_Event = ''evt_1'', type_Event = ''payment_intent.succeeded'', data_object = demo_intent md\<rparr>"

text \<open>Collaborators that accept the one signature \<open>''t=1,v1=good''\<close> and never fail otherwise.\<close>

definition demo_ext :: "(string \<times> string) list \<Rightarrow> externals" where
  "demo_ext md =
     \<lparr>STRIPE_WEBHOOK_SECRET = Some ''whsec_test'',
      constructEvent = (\<lambda>body signature secret.
         if signature = ''t=1,v1=good'' then Inr (demo_event md)
         else Inl (StripeError ''No signatures found matching the expected signature for payload'')),
      paymentIntents_create = (\<lambda>params. Inr (demo_intent [])),
      toDataURL = (\<lambda>token. Some (''data:image/png;base64,'' @ token))\<rparr>"

definition demo_request :: "string option \<Rightarrow> WebhookRequest" where
  "demo_request signature = \<lparr>rawBody = ''{}'', stripe_signature = signature\<rparr>"

definition demo_world :: world where
  "demo_world = initial_world (\<lambda>i. 7 * i) 1000"

section \<open>The order store keeps at most one order per identifier\<close>

lemma update_fresh: "map_of al k = None \<Longrightarrow> AList.update k v al = al @ [(k, v)]"
  by (induction al) (auto split: if_splits)

lemma filter_key_length: "distinct (map fst al) \<Longrightarrow> length (filter (\<lambda>entry. fst entry = k) al) \<le> 1"
  by (induction al) (auto simp: filter_empty_conv image_iff)

lemma filter_key_present:
  "distinct (map fst al) \<Longrightarrow> k \<in> fst ` set al \<Longrightarrow> length (filter (\<lambda>entry. fst entry = k) al) = 1"
  by (induction al) (auto simp: filter_empty_conv image_iff)

lemma list_all_update:
  "list_all P al \<Longrightarrow> P (k, v) \<Longrightarrow> list_all P (AList.update k v al)"
  by (induction al) auto

lemma at_most_one_order_new: "at_most_one_order new_InMemoryOrderStore"
  by (simp add: at_most_one_order_def new_InMemoryOrderStore_def)

lemma at_most_one_order_call:
  "at_most_one_order this \<Longrightarrow> at_most_one_order (store_after c this)"
  by (cases c)
     (simp_all add: at_most_one_order_def saveOrder_def markPaymentIntentProcessed_def
        distinct_update list_all_update)

lemma store_reachable_at_most_one: "store_reachable this \<Longrightarrow> at_most_one_order this"
  by (induction rule: store_reachable.induct) (simp_all add: at_most_one_order_new at_most_one_order_call)

lemma orders_for_keyed:
  "list_all (\<lambda>entry. paymentIntentId (snd entry) = fst entry) al \<Longrightarrow>
   filter (\<lambda>entry. paymentIntentId (snd entry) = pid) al = filter (\<lambda>entry. fst entry = pid) al"
  by (induction al) auto

lemma at_most_one_order_counts:
  "at_most_one_order this \<Longrightarrow> orders_keyed pid this \<le> 1 \<and> orders_for pid this = orders_keyed pid this"
  using filter_key_length [of "orders this" pid]
  by (simp add: at_most_one_order_def orders_keyed_def orders_for_def orders_for_keyed)

lemma handle_processed:
  "isPaymentIntentProcessed (id_PaymentIntent paymentIntent) (orderStore w) \<Longrightarrow>
   handlePaymentIntentSucceeded paymentIntent w =
     w\<lparr>calls := calls w @ [OrderStore (IsPaymentIntentProcessed (id_PaymentIntent paymentIntent))]\<rparr>"
  by (simp add: handlePaymentIntentSucceeded_def invoke_def)

lemma handle_fresh:
  "\<not> isPaymentIntentProcessed (id_PaymentIntent paymentIntent) (orderStore w) \<Longrightarrow>
   handlePaymentIntentSucceeded paymentIntent w =
     w\<lparr>orderStore := saveOrder (built_order paymentIntent w)
          (markPaymentIntentProcessed (id_PaymentIntent paymentIntent) (orderStore w)),
        entropy_pos := entropy_pos w + 32,
        calls := calls w @
          [OrderStore (IsPaymentIntentProcessed (id_PaymentIntent paymentIntent)),
           OrderStore (MarkPaymentIntentProcessed (id_PaymentIntent paymentIntent)),
           GenerateQRToken (qrToken (built_order paymentIntent w)),
           NewDate,
           OrderStore (SaveOrder (built_order paymentIntent w))]\<rparr>"
  by (simp add: handlePaymentIntentSucceeded_def invoke_def generateQRToken_def randomBytes_def
        new_Date_def built_order_def Let_def)


lemma webhook_post_rejected:
  assumes "case stripe_signature request of
             None \<Rightarrow> True
           | Some signature \<Rightarrow> signature = [] \<or> isl (verifyWebhookSignature ext (rawBody request) signature)"
  shows "webhook_post ext request w = (send 400 (payload (fst (webhook_post ext request w))), w)"
  using assms
  by (auto simp: webhook_post_def send_def isl_def split: option.splits sum.splits)

lemma webhook_post_verified:
  assumes "stripe_signature request = Some signature" and "signature \<noteq> []"
    and "verifyWebhookSignature ext (rawBody request) signature = Inr event"
  shows "webhook_post ext request w =
           (send 200 (Received True),
            if type_Event event = ''payment_intent.succeeded''
            then handlePaymentIntentSucceeded (data_object event) w else w)"
  using assms by (simp add: webhook_post_def)

lemma finalized_handle:
  assumes "finalized (orderStore w)"
  shows "finalized (orderStore (handlePaymentIntentSucceeded paymentIntent w))"
proof (cases "isPaymentIntentProcessed (id_PaymentIntent paymentIntent) (orderStore w)")
  case True
  then show ?thesis using assms by (simp add: handle_processed)
next
  case False
  then show ?thesis using assms
    by (simp add: handle_fresh finalized_def at_most_one_order_def saveOrder_def
          markPaymentIntentProcessed_def distinct_update list_all_update built_order_def
          update_keys isPaymentIntentProcessed_def)
qed

lemma finalized_webhook_post: "finalized (orderStore w) \<Longrightarrow> finalized (orderStore (snd (webhook_post ext request w)))"
  by (auto simp: webhook_post_def finalized_handle split: option.splits sum.splits)

lemma orders_get_qr_store: "orderStore (snd (orders_get_qr ext pid w)) = orderStore w"
  by (auto simp: orders_get_qr_def invoke_def generateQRCodeDataUrl_def Let_def
        split: option.splits sum.splits prod.splits)

lemma checkout_store: "orderStore (snd (checkout_create_intent ext request_body w)) = orderStore w"
  by (auto simp: checkout_create_intent_def Let_def split: sum.splits thrown.splits)

lemma reachable_finalized: "reachable w \<Longrightarrow> finalized (orderStore w)"
proof (induction rule: reachable.induct)
  case (start random t)
  show ?case
    by (simp add: initial_world_def finalized_def at_most_one_order_def new_InMemoryOrderStore_def)
next
  case (webhook w ext request)
  then show ?case by (simp add: finalized_webhook_post)
next
  case (query w ext pid)
  then show ?case by (simp add: orders_get_qr_store)
next
  case (checkout w ext request_body)
  then show ?case by (simp add: checkout_store)
next
  case (tick w t)
  then show ?case by simp
qed


lemma keyed_after_save:
  "distinct (map fst al) \<Longrightarrow> length (filter (\<lambda>entry. fst entry = k) (AList.update k v al)) = 1"
  by (rule filter_key_present) (simp_all add: distinct_update dom_update)

text \<open>
  Claim C8. In every store that calls of the four methods produce from the empty store,
  no identifier keys two entries and every entry is filed under the identifier of its
  order, so at most one order exists per identifier. Each of \<open>saveOrder\<close>,
  \<open>getOrderByPaymentIntentId\<close>, \<open>isPaymentIntentProcessed\<close> and
  \<open>markPaymentIntentProcessed\<close> keeps that property of any store that has it.
  \<open>saveOrder\<close> is an upsert on the identifier of the order: afterwards a lookup of that
  identifier yields the saved order, exactly one entry is keyed by it, every other
  identifier looks up as before, and the processed identifiers are untouched.
\<close>

theorem store_at_most_one_order_per_identifier:
  "(store_reachable this \<longrightarrow> at_most_one_order this) \<and>
   (at_most_one_order this \<longrightarrow>
      at_most_one_order (store_after c this) \<and>
      orders_keyed pid this \<le> 1 \<and> orders_for pid this \<le> 1 \<and>
      orders_keyed pid (store_after c this) \<le> 1 \<and> orders_for pid (store_after c this) \<le> 1 \<and>
      orders_keyed (paymentIntentId order) (saveOrder order this) = 1) \<and>
   getOrderByPaymentIntentId (paymentIntentId order) (saveOrder order this) = Some order \<and>
   (pid \<noteq> paymentIntentId order \<longrightarrow>
      getOrderByPaymentIntentId pid (saveOrder order this) = getOrderByPaymentIntentId pid this) \<and>
   processedPaymentIntents (saveOrder order this) = processedPaymentIntents this"
proof -
  have reach: "store_reachable this \<longrightarrow> at_most_one_order this"
    by (simp add: store_reachable_at_most_one)
  have keep: "at_most_one_order this \<longrightarrow>
      at_most_one_order (store_after c this) \<and>
      orders_keyed pid this \<le> 1 \<and> orders_for pid this \<le> 1 \<and>
      orders_keyed pid (store_after c this) \<le> 1 \<and> orders_for pid (store_after c this) \<le> 1"
    using at_most_one_order_counts [of this pid]
      at_most_one_order_counts [of "store_after c this" pid] at_most_one_order_call [of this c]
    by auto
  have one: "at_most_one_order this \<longrightarrow> orders_keyed (paymentIntentId order) (saveOrder order this) = 1"
    by (simp add: at_most_one_order_def orders_keyed_def saveOrder_def keyed_after_save)
  have upsert: "getOrderByPaymentIntentId (paymentIntentId order) (saveOrder order this) = Some order"
    by (simp add: getOrderByPaymentIntentId_def saveOrder_def update_conv')
  have others: "pid \<noteq> paymentIntentId order \<longrightarrow>
      getOrderByPaymentIntentId pid (saveOrder order this) = getOrderByPaymentIntentId pid this"
    by (simp add: getOrderByPaymentIntentId_def saveOrder_def update_conv')
  have marks: "processedPaymentIntents (saveOrder order this) = processedPaymentIntents this"
    by (simp add: saveOrder_def)
  from reach keep one upsert others marks show ?thesis by blast
qed

theorem store_at_most_one_order_per_identifier_witness:
  "store_reachable (saveOrder (demo_order ''pi_1'' ''aa'') new_InMemoryOrderStore) \<and>
   at_most_one_order (saveOrder (demo_order ''pi_1'' ''aa'') new_InMemoryOrderStore) \<and>
   at_most_one_order
     (saveOrder (demo_order ''pi_1'' ''bb'') (saveOrder (demo_order ''pi_1'' ''aa'') new_InMemoryOrderStore)) \<and>
   orders_for ''pi_1''
     (saveOrder (demo_order ''pi_1'' ''bb'') (saveOrder (demo_order ''pi_1'' ''aa'') new_InMemoryOrderStore)) = 1 \<and>
   getOrderByPaymentIntentId ''pi_1''
     (saveOrder (demo_order ''pi_1'' ''bb'') (saveOrder (demo_order ''pi_1'' ''aa'') new_InMemoryOrderStore))
     = Some (demo_order ''pi_1'' ''bb'') \<and>
   getOrderByPaymentIntentId ''pi_2''
     (saveOrder (demo_order ''pi_1'' ''bb'') (saveOrder (demo_order ''pi_1'' ''aa'') new_InMemoryOrderStore))
     = None"
proof -
  let ?s = "saveOrder (demo_order ''pi_1'' ''aa'') new_InMemoryOrderStore"
  have r: "store_reachable ?s"
    using store_reachable.call [OF store_reachable.initial, of "SaveOrder (demo_order ''pi_1'' ''aa'')"]
    by simp
  have "''pi_2'' \<noteq> paymentIntentId (demo_order ''pi_1'' ''bb'')"
    by (simp add: demo_order_def)
  with r store_at_most_one_order_per_identifier
         [of ?s "SaveOrder (demo_order ''pi_1'' ''bb'')" "''pi_2''" "demo_order ''pi_1'' ''bb''"]
  show ?thesis
    by (simp add: demo_order_def saveOrder_def new_InMemoryOrderStore_def orders_for_def
          getOrderByPaymentIntentId_def)
qed

lemma demo_verified:
  "verifyWebhookSignature (demo_ext md) (rawBody (demo_request (Some ''t=1,v1=good''))) ''t=1,v1=good'' = Inr (demo_event md)"
  by (simp add: verifyWebhookSignature_def demo_ext_def)

section \<open>Finalization of a payment by the webhook\<close>

lemma parseInt10_zero: "parseInt10 ''0'' = Finite 0"
  by (simp add: parseInt10_def isWhiteSpace_def isDigit_def digit_value_def fl_def)

text \<open>
  Claim C2. Let a notification carry a signature that verifies and the type
  \<open>payment_intent.succeeded\<close>, for an identifier that is fresh: not among the processed
  identifiers and without an order in the store. Then the webhook answers 200 and creates
  exactly one order: the entries of the store are the former ones followed by one entry
  keyed by the identifier, exactly one entry is keyed by it, and a lookup of the
  identifier afterwards returns that order, which carries the identifier.
\<close>

theorem webhook_fresh_creates_one_order:
  assumes "stripe_signature request = Some signature" and "signature \<noteq> []"
    and "verifyWebhookSignature ext (rawBody request) signature = Inr event"
    and "type_Event event = ''payment_intent.succeeded''"
    and "pid = id_PaymentIntent (data_object event)"
    and "\<not> isPaymentIntentProcessed pid (orderStore w)"
    and "getOrderByPaymentIntentId pid (orderStore w) = None"
  shows "statusCode (fst (webhook_post ext request w)) = 200 \<and>
         orders (orderStore (snd (webhook_post ext request w))) =
           orders (orderStore w) @ [(pid, built_order (data_object event) w)] \<and>
         orders_keyed pid (orderStore (snd (webhook_post ext request w))) = 1 \<and>
         getOrderByPaymentIntentId pid (orderStore (snd (webhook_post ext request w))) =
           Some (built_order (data_object event) w) \<and>
         paymentIntentId (built_order (data_object event) w) = pid"
proof -
  let ?w' = "snd (webhook_post ext request w)"
  have none: "map_of (orders (orderStore w)) pid = None"
    using assms(7) by (simp add: getOrderByPaymentIntentId_def)
  have post: "webhook_post ext request w =
                (send 200 (Received True), handlePaymentIntentSucceeded (data_object event) w)"
    using webhook_post_verified [OF assms(1-3)] assms(4) by simp
  have ords: "orders (orderStore ?w') = orders (orderStore w) @ [(pid, built_order (data_object event) w)]"
    using assms(5,6) none
    by (simp add: post handle_fresh saveOrder_def markPaymentIntentProcessed_def built_order_def
          update_fresh)
  have keyed: "orders_keyed pid (orderStore ?w') = 1"
    using none by (auto simp: orders_keyed_def ords filter_empty_conv map_of_eq_None_iff image_iff)
  have look: "getOrderByPaymentIntentId pid (orderStore ?w') = Some (built_order (data_object event) w)"
    using none by (simp add: getOrderByPaymentIntentId_def ords map_add_Some_iff)
  have ident: "paymentIntentId (built_order (data_object event) w) = pid"
    using assms(5) by (simp add: built_order_def)
  have stat: "statusCode (fst (webhook_post ext request w)) = 200"
    by (simp add: post send_def)
  from stat ords keyed look ident show ?thesis by blast
qed


lemma demo_fresh:
  "\<not> isPaymentIntentProcessed ''pi_1'' (orderStore demo_world) \<and>
   getOrderByPaymentIntentId ''pi_1'' (orderStore demo_world) = None"
  by (simp add: demo_world_def initial_world_def new_InMemoryOrderStore_def
        isPaymentIntentProcessed_def getOrderByPaymentIntentId_def)

theorem webhook_fresh_creates_one_order_witness:
  "stripe_signature (demo_request (Some ''t=1,v1=good'')) = Some ''t=1,v1=good'' \<and>
   verifyWebhookSignature (demo_ext []) (rawBody (demo_request (Some ''t=1,v1=good''))) ''t=1,v1=good''
     = Inr (demo_event []) \<and>
   type_Event (demo_event []) = ''payment_intent.succeeded'' \<and>
   \<not> isPaymentIntentProcessed ''pi_1'' (orderStore demo_world) \<and>
   getOrderByPaymentIntentId ''pi_1'' (orderStore demo_world) = None \<and>
   statusCode (fst (webhook_post (demo_ext []) (demo_request (Some ''t=1,v1=good'')) demo_world)) = 200 \<and>
   orders (orderStore (snd (webhook_post (demo_ext []) (demo_request (Some ''t=1,v1=good'')) demo_world))) =
     [(''pi_1'', built_order (demo_intent []) demo_world)] \<and>
   getOrderByPaymentIntentId ''pi_1''
     (orderStore (snd (webhook_post (demo_ext []) (demo_request (Some ''t=1,v1=good'')) demo_world))) =
     Some (built_order (demo_intent []) demo_world)"
proof -
  have sig: "stripe_signature (demo_request (Some ''t=1,v1=good'')) = Some ''t=1,v1=good''"
    by (simp add: demo_request_def)
  have ne: "''t=1,v1=good'' \<noteq> []" by simp
  have ty: "type_Event (demo_event []) = ''payment_intent.succeeded''"
    by (simp add: demo_event_def)
  have pid: "''pi_1'' = id_PaymentIntent (data_object (demo_event []))"
    by (simp add: demo_event_def demo_intent_def)
  have obj: "data_object (demo_event []) = demo_intent []"
    by (simp add: demo_event_def)
  have empty: "orders (orderStore demo_world) = []"
    by (simp add: demo_world_def initial_world_def new_InMemoryOrderStore_def)
  from webhook_fresh_creates_one_order [OF sig ne demo_verified ty pid
         conjunct1 [OF demo_fresh] conjunct2 [OF demo_fresh]]
  show ?thesis
    using sig demo_verified [of "[]"] ty demo_fresh by (simp add: obj empty)
qed

lemma processed_after_handle:
  "isPaymentIntentProcessed (id_PaymentIntent paymentIntent)
     (orderStore (handlePaymentIntentSucceeded paymentIntent w))"
  by (cases "isPaymentIntentProcessed (id_PaymentIntent paymentIntent) (orderStore w)")
     (simp_all add: handle_processed handle_fresh isPaymentIntentProcessed_def
        saveOrder_def markPaymentIntentProcessed_def)

lemma finalized_keyed_one:
  assumes "finalized this" and "isPaymentIntentProcessed pid this"
  shows "orders_keyed pid this = 1 \<and> orders_for pid this = 1"
proof -
  from assms have "pid \<in> fst ` set (orders this)"
    by (simp add: finalized_def isPaymentIntentProcessed_def)
  with assms(1) have "orders_keyed pid this = 1"
    by (simp add: finalized_def at_most_one_order_def orders_keyed_def filter_key_present)
  with assms(1) show ?thesis
    using at_most_one_order_counts [of this pid] by (simp add: finalized_def)
qed

lemma finalized_unprocessed_absent:
  assumes "finalized this" and "\<not> isPaymentIntentProcessed pid this"
  shows "map_of (orders this) pid = None"
  using assms by (simp add: finalized_def isPaymentIntentProcessed_def map_of_eq_None_iff)

text \<open>
  Claim C1. In every world the service can reach, let the same notification, with a
  signature that verifies and the type \<open>payment_intent.succeeded\<close>, be delivered twice.
  Both deliveries are acknowledged with 200. The second delivery leaves the store as the
  first one left it, and the store then holds exactly one order for the identifier, by key
  and by the identifier inside the order. The two deliveries together add one entry to the
  store when the identifier had not been processed before, and none otherwise.
\<close>

theorem webhook_delivered_twice:
  assumes "reachable w"
    and "stripe_signature request = Some signature" and "signature \<noteq> []"
    and "verifyWebhookSignature ext (rawBody request) signature = Inr event"
    and "type_Event event = ''payment_intent.succeeded''"
    and "pid = id_PaymentIntent (data_object event)"
    and "webhook_post ext request w = (reply1, w1)"
    and "webhook_post ext request w1 = (reply2, w2)"
  shows "reply1 = send 200 (Received True) \<and> reply2 = send 200 (Received True) \<and>
         orderStore w2 = orderStore w1 \<and>
         orders_keyed pid (orderStore w2) = 1 \<and> orders_for pid (orderStore w2) = 1 \<and>
         length (orders (orderStore w2)) =
           (if isPaymentIntentProcessed pid (orderStore w) then length (orders (orderStore w))
            else Suc (length (orders (orderStore w))))"
proof -
  let ?pi = "data_object event"
  have first: "reply1 = send 200 (Received True)" "w1 = handlePaymentIntentSucceeded ?pi w"
    using webhook_post_verified [OF assms(2-4), of w] assms(5,7) by simp_all
  have second: "reply2 = send 200 (Received True)" "w2 = handlePaymentIntentSucceeded ?pi w1"
    using webhook_post_verified [OF assms(2-4), of w1] assms(5,8) by simp_all
  have marked: "isPaymentIntentProcessed pid (orderStore w1)"
    using processed_after_handle [of ?pi w] by (simp add: first assms(6))
  then have same: "orderStore w2 = orderStore w1"
    by (simp add: second assms(6) handle_processed)
  have fin: "finalized (orderStore w)"
    using assms(1) by (rule reachable_finalized)
  then have fin1: "finalized (orderStore w1)"
    by (simp add: first finalized_handle)
  have one: "orders_keyed pid (orderStore w2) = 1 \<and> orders_for pid (orderStore w2) = 1"
    using finalized_keyed_one [OF fin1 marked] by (simp add: same)
  have len: "length (orders (orderStore w1)) =
           (if isPaymentIntentProcessed pid (orderStore w) then length (orders (orderStore w))
            else Suc (length (orders (orderStore w))))"
  proof (cases "isPaymentIntentProcessed pid (orderStore w)")
    case True
    then show ?thesis by (simp add: first assms(6) handle_processed)
  next
    case False
    from finalized_unprocessed_absent [OF fin False]
    have "map_of (orders (orderStore w)) (paymentIntentId (built_order ?pi w)) = None"
      by (simp add: built_order_def assms(6))
    with False show ?thesis
      by (simp add: first assms(6) handle_fresh saveOrder_def markPaymentIntentProcessed_def
            update_fresh)
  qed
  from first(1) second(1) same one len show ?thesis by simp
qed

theorem webhook_delivered_twice_witness:
  "reachable demo_world \<and>
   stripe_signature (demo_request (Some ''t=1,v1=good'')) = Some ''t=1,v1=good'' \<and>
   verifyWebhookSignature (demo_ext []) (rawBody (demo_request (Some ''t=1,v1=good''))) ''t=1,v1=good''
     = Inr (demo_event []) \<and>
   type_Event (demo_event []) = ''payment_intent.succeeded'' \<and>
   fst (webhook_post (demo_ext []) (demo_request (Some ''t=1,v1=good''))
          (snd (webhook_post (demo_ext []) (demo_request (Some ''t=1,v1=good'')) demo_world)))
     = send 200 (Received True) \<and>
   orderStore (snd (webhook_post (demo_ext []) (demo_request (Some ''t=1,v1=good''))
          (snd (webhook_post (demo_ext []) (demo_request (Some ''t=1,v1=good'')) demo_world))))
     = orderStore (snd (webhook_post (demo_ext []) (demo_request (Some ''t=1,v1=good'')) demo_world)) \<and>
   orders_keyed ''pi_1'' (orderStore (snd (webhook_post (demo_ext []) (demo_request (Some ''t=1,v1=good''))
          (snd (webhook_post (demo_ext []) (demo_request (Some ''t=1,v1=good'')) demo_world))))) = 1 \<and>
   length (orders (orderStore (snd (webhook_post (demo_ext []) (demo_request (Some ''t=1,v1=good''))
          (snd (webhook_post (demo_ext []) (demo_request (Some ''t=1,v1=good'')) demo_world)))))) = 1"
proof -
  let ?req = "demo_request (Some ''t=1,v1=good'')"
  let ?p1 = "webhook_post (demo_ext []) ?req demo_world"
  let ?p2 = "webhook_post (demo_ext []) ?req (snd ?p1)"
  have r: "reachable demo_world"
    unfolding demo_world_def by (rule reachable.start)
  have sig: "stripe_signature ?req = Some ''t=1,v1=good''"
    by (simp add: demo_request_def)
  have ne: "''t=1,v1=good'' \<noteq> []" by simp
  have ty: "type_Event (demo_event []) = ''payment_intent.succeeded''"
    by (simp add: demo_event_def)
  have pid: "''pi_1'' = id_PaymentIntent (data_object (demo_event []))"
    by (simp add: demo_event_def demo_intent_def)
  have empty: "orders (orderStore demo_world) = []"
    by (simp add: demo_world_def initial_world_def new_InMemoryOrderStore_def)
  have e1: "?p1 = (fst ?p1, snd ?p1)" and e2: "?p2 = (fst ?p2, snd ?p2)" by simp_all
  have twice:
    "fst ?p1 = send 200 (Received True) \<and> fst ?p2 = send 200 (Received True) \<and>
     orderStore (snd ?p2) = orderStore (snd ?p1) \<and>
     orders_keyed ''pi_1'' (orderStore (snd ?p2)) = 1 \<and>
     orders_for ''pi_1'' (orderStore (snd ?p2)) = 1 \<and>
     length (orders (orderStore (snd ?p2))) =
       (if isPaymentIntentProcessed ''pi_1'' (orderStore demo_world)
        then length (orders (orderStore demo_world))
        else Suc (length (orders (orderStore demo_world))))"
    by (rule webhook_delivered_twice [OF r sig ne demo_verified ty pid e1 e2])
  then have ack: "fst ?p2 = send 200 (Received True)"
    and same: "orderStore (snd ?p2) = orderStore (snd ?p1)"
    and one: "orders_keyed ''pi_1'' (orderStore (snd ?p2)) = 1"
    and len: "length (orders (orderStore (snd ?p2))) =
       (if isPaymentIntentProcessed ''pi_1'' (orderStore demo_world)
        then length (orders (orderStore demo_world))
        else Suc (length (orders (orderStore demo_world))))"
    by blast+
  have len1: "length (orders (orderStore (snd ?p2))) = 1"
    using demo_fresh by (simp only: len empty) simp
  from r sig demo_verified [of "[]"] ty ack same one len1 show ?thesis
    by blast
qed

text \<open>
  Claim C3. When the signature header is missing (absent or empty) or the signature fails
  verification, the webhook answers with the client-error status 400 and changes nothing:
  the world after the request is the world before it, so no order is created and the
  processed identifiers are the same.
\<close>

theorem webhook_bad_signature_changes_nothing:
  assumes "stripe_signature request = None \<or> stripe_signature request = Some [] \<or>
           (\<exists>signature error. stripe_signature request = Some signature \<and>
              verifyWebhookSignature ext (rawBody request) signature = Inl error)"
  shows "statusCode (fst (webhook_post ext request w)) = 400 \<and>
         snd (webhook_post ext request w) = w \<and>
         orders (orderStore (snd (webhook_post ext request w))) = orders (orderStore w) \<and>
         processedPaymentIntents (orderStore (snd (webhook_post ext request w))) =
           processedPaymentIntents (orderStore w)"
proof -
  from assms have "case stripe_signature request of
             None \<Rightarrow> True
           | Some signature \<Rightarrow> signature = [] \<or> isl (verifyWebhookSignature ext (rawBody request) signature)"
    by (auto split: option.splits)
  from webhook_post_rejected [OF this, of w] show ?thesis
    by (metis fst_conv snd_conv send_def reply.select_convs(1))
qed

theorem webhook_bad_signature_changes_nothing_witness:
  "stripe_signature (demo_request None) = None \<and>
   statusCode (fst (webhook_post (demo_ext []) (demo_request None) demo_world)) = 400 \<and>
   snd (webhook_post (demo_ext []) (demo_request None) demo_world) = demo_world \<and>
   stripe_signature (demo_request (Some ''t=1,v1=forged'')) = Some ''t=1,v1=forged'' \<and>
   isl (verifyWebhookSignature (demo_ext []) (rawBody (demo_request (Some ''t=1,v1=forged''))) ''t=1,v1=forged'') \<and>
   statusCode (fst (webhook_post (demo_ext []) (demo_request (Some ''t=1,v1=forged'')) demo_world)) = 400 \<and>
   snd (webhook_post (demo_ext []) (demo_request (Some ''t=1,v1=forged'')) demo_world) = demo_world"
proof -
  have none: "stripe_signature (demo_request None) = None"
    by (simp add: demo_request_def)
  have some: "stripe_signature (demo_request (Some ''t=1,v1=forged'')) = Some ''t=1,v1=forged''"
    by (simp add: demo_request_def)
  have bad: "verifyWebhookSignature (demo_ext []) (rawBody (demo_request (Some ''t=1,v1=forged''))) ''t=1,v1=forged''
      = Inl (StripeError ''No signatures found matching the expected signature for payload'')"
    by (simp add: verifyWebhookSignature_def demo_ext_def)
  have a: "stripe_signature (demo_request None) = None \<or> stripe_signature (demo_request None) = Some [] \<or>
           (\<exists>signature error. stripe_signature (demo_request None) = Some signature \<and>
              verifyWebhookSignature (demo_ext []) (rawBody (demo_request None)) signature = Inl error)"
    using none by simp
  have b: "stripe_signature (demo_request (Some ''t=1,v1=forged'')) = None \<or>
           stripe_signature (demo_request (Some ''t=1,v1=forged'')) = Some [] \<or>
           (\<exists>signature error. stripe_signature (demo_request (Some ''t=1,v1=forged'')) = Some signature \<and>
              verifyWebhookSignature (demo_ext []) (rawBody (demo_request (Some ''t=1,v1=forged''))) signature = Inl error)"
    using some bad by blast
  from webhook_bad_signature_changes_nothing [OF a, of demo_world]
       webhook_bad_signature_changes_nothing [OF b, of demo_world] none some bad
  show ?thesis by simp
qed

lemma calls_since_append [simp]: "calls_since w (w'\<lparr>calls := calls w @ cs\<rparr>) = cs"
  by (simp add: calls_since_def)

text \<open>
  Claim C4. When the finalization step runs for an identifier that is not yet processed,
  it goes through these worlds: \<open>w1\<close> after the query whether the identifier is
  processed, \<open>w2\<close> after the marking, \<open>w3\<close> after the generation of the token, \<open>w4\<close>
  after the reading of the time, and its result after the saving of the order. The
  identifier is not in the processed set of \<open>w1\<close> and is in the processed set of \<open>w2\<close>,
  the world in which the token is generated: there no random byte has been drawn yet and
  the lookup of the identifier yields what it yielded at the start. The identifier is
  still in the processed set of \<open>w4\<close>, the world in which the order is saved, whose order
  map is the one of the start; only the result has the new order under the identifier.
  In the sequence of calls the marking comes strictly before the generation of the token
  and strictly before the saving of the order, and both of these do happen.
\<close>

theorem marking_precedes_token_and_order:
  assumes "pid = id_PaymentIntent paymentIntent"
    and "\<not> isPaymentIntentProcessed pid (orderStore w)"
    and "w1 = invoke (IsPaymentIntentProcessed pid) w"
    and "w2 = invoke (MarkPaymentIntentProcessed pid) w1"
    and "(token, w3) = generateQRToken w2"
    and "(now, w4) = new_Date w3"
    and "order = \<lparr>paymentIntentId = pid, qrToken = token, status = Valid, createdAt = now,
                    femaleQty = parseInt10 (or_default (map_of (metadata paymentIntent) ''femaleQty'') ''0''),
                    maleQty = parseInt10 (or_default (map_of (metadata paymentIntent) ''maleQty'') ''0'')\<rparr>"
    and "w' = handlePaymentIntentSucceeded paymentIntent w"
  shows "w' = invoke (SaveOrder order) w4 \<and>
         \<not> isPaymentIntentProcessed pid (orderStore w1) \<and>
         isPaymentIntentProcessed pid (orderStore w2) \<and>
         getOrderByPaymentIntentId pid (orderStore w2) = getOrderByPaymentIntentId pid (orderStore w) \<and>
         entropy_pos w2 = entropy_pos w \<and>
         entropy_pos w3 = entropy_pos w + 32 \<and>
         isPaymentIntentProcessed pid (orderStore w3) \<and>
         isPaymentIntentProcessed pid (orderStore w4) \<and>
         orders (orderStore w4) = orders (orderStore w) \<and>
         getOrderByPaymentIntentId pid (orderStore w') = Some order \<and>
         calls_since w w2 =
           [OrderStore (IsPaymentIntentProcessed pid), OrderStore (MarkPaymentIntentProcessed pid)] \<and>
         calls_since w w' =
           [OrderStore (IsPaymentIntentProcessed pid),
            OrderStore (MarkPaymentIntentProcessed pid),
            GenerateQRToken token,
            NewDate,
            OrderStore (SaveOrder order)] \<and>
         preceded (\<lambda>c. c = OrderStore (MarkPaymentIntentProcessed pid)) is_generateQRToken (calls_since w w') \<and>
         preceded (\<lambda>c. c = OrderStore (MarkPaymentIntentProcessed pid)) is_saveOrder (calls_since w w') \<and>
         list_ex is_generateQRToken (calls_since w w') \<and>
         list_ex is_saveOrder (calls_since w w')"
proof -
  have fresh: "\<not> isPaymentIntentProcessed (id_PaymentIntent paymentIntent) (orderStore w)"
    using assms(1,2) by simp
  have w2: "w2 = w\<lparr>orderStore := markPaymentIntentProcessed pid (orderStore w),
                   calls := calls w @ [OrderStore (IsPaymentIntentProcessed pid),
                                       OrderStore (MarkPaymentIntentProcessed pid)]\<rparr>"
    by (simp add: assms(3,4) invoke_def)
  have tok: "token = toString_hex (fst (randomBytes 32 w))"
    and w3: "w3 = w2\<lparr>entropy_pos := entropy_pos w + 32,
                      calls := calls w2 @ [GenerateQRToken token]\<rparr>"
    using assms(5) by (simp_all add: generateQRToken_def randomBytes_def w2 Let_def)
  have now: "now = clock w" and w4: "w4 = w3\<lparr>calls := calls w3 @ [NewDate]\<rparr>"
    using assms(6) by (simp_all add: new_Date_def w3 w2)
  have order: "order = built_order paymentIntent w"
    by (simp add: assms(7) built_order_def tok now assms(1))
  have qt: "qrToken order = token"
    by (simp add: assms(7))
  have res: "w' = invoke (SaveOrder order) w4"
    by (simp add: assms(8) handle_fresh [OF fresh] order [symmetric] invoke_def w4 w3 w2
          assms(1) [symmetric] qt)
  have s1: "\<not> isPaymentIntentProcessed pid (orderStore w1)"
    using assms(2) by (simp add: assms(3) invoke_def)
  have s2: "isPaymentIntentProcessed pid (orderStore w2)"
    by (simp add: w2 isPaymentIntentProcessed_def markPaymentIntentProcessed_def)
  have l2: "getOrderByPaymentIntentId pid (orderStore w2) = getOrderByPaymentIntentId pid (orderStore w)"
    by (simp add: w2 getOrderByPaymentIntentId_def markPaymentIntentProcessed_def)
  have e2: "entropy_pos w2 = entropy_pos w" by (simp add: w2)
  have e3: "entropy_pos w3 = entropy_pos w + 32" by (simp add: w3)
  have s3: "isPaymentIntentProcessed pid (orderStore w3)"
    using s2 by (simp add: w3)
  have s4: "isPaymentIntentProcessed pid (orderStore w4)"
    using s3 by (simp add: w4)
  have o4: "orders (orderStore w4) = orders (orderStore w)"
    by (simp add: w4 w3 w2 markPaymentIntentProcessed_def)
  have look: "getOrderByPaymentIntentId pid (orderStore w') = Some order"
    by (simp add: res invoke_def getOrderByPaymentIntentId_def saveOrder_def update_conv' assms(7))
  have c2: "calls_since w w2 =
           [OrderStore (IsPaymentIntentProcessed pid), OrderStore (MarkPaymentIntentProcessed pid)]"
    by (simp add: w2)
  have cs: "calls_since w w' =
           [OrderStore (IsPaymentIntentProcessed pid),
            OrderStore (MarkPaymentIntentProcessed pid),
            GenerateQRToken token,
            NewDate,
            OrderStore (SaveOrder order)]"
    by (simp add: res invoke_def w4 w3 w2 calls_since_def)
  have p1: "preceded (\<lambda>c. c = OrderStore (MarkPaymentIntentProcessed pid)) is_generateQRToken (calls_since w w')"
    and p2: "preceded (\<lambda>c. c = OrderStore (MarkPaymentIntentProcessed pid)) is_saveOrder (calls_since w w')"
    and x1: "list_ex is_generateQRToken (calls_since w w')"
    and x2: "list_ex is_saveOrder (calls_since w w')"
    by (simp_all add: cs)
  from res s1 s2 l2 e2 e3 s3 s4 o4 look c2 cs p1 p2 x1 x2 show ?thesis by blast
qed


theorem marking_precedes_token_and_order_witness:
  "\<not> isPaymentIntentProcessed ''pi_1'' (orderStore demo_world) \<and>
   isPaymentIntentProcessed ''pi_1''
     (orderStore (invoke (MarkPaymentIntentProcessed ''pi_1'')
        (invoke (IsPaymentIntentProcessed ''pi_1'') demo_world))) \<and>
   entropy_pos (invoke (MarkPaymentIntentProcessed ''pi_1'')
        (invoke (IsPaymentIntentProcessed ''pi_1'') demo_world)) = entropy_pos demo_world \<and>
   getOrderByPaymentIntentId ''pi_1''
     (orderStore (invoke (MarkPaymentIntentProcessed ''pi_1'')
        (invoke (IsPaymentIntentProcessed ''pi_1'') demo_world))) = None \<and>
   isPaymentIntentProcessed ''pi_1''
     (orderStore (snd (new_Date (snd (generateQRToken
        (invoke (MarkPaymentIntentProcessed ''pi_1'')
           (invoke (IsPaymentIntentProcessed ''pi_1'') demo_world))))))) \<and>
   getOrderByPaymentIntentId ''pi_1'' (orderStore (handlePaymentIntentSucceeded (demo_intent []) demo_world)) =
     Some \<lparr>paymentIntentId = ''pi_1'',
            qrToken = fst (generateQRToken
              (invoke (MarkPaymentIntentProcessed ''pi_1'')
                 (invoke (IsPaymentIntentProcessed ''pi_1'') demo_world))),
            status = Valid,
            createdAt = fst (new_Date (snd (generateQRToken
              (invoke (MarkPaymentIntentProcessed ''pi_1'')
                 (invoke (IsPaymentIntentProcessed ''pi_1'') demo_world))))),
            femaleQty = Finite 0, maleQty = Finite 0\<rparr> \<and>
   preceded (\<lambda>c. c = OrderStore (MarkPaymentIntentProcessed ''pi_1'')) is_generateQRToken
     (calls_since demo_world (handlePaymentIntentSucceeded (demo_intent []) demo_world)) \<and>
   preceded (\<lambda>c. c = OrderStore (MarkPaymentIntentProcessed ''pi_1'')) is_saveOrder
     (calls_since demo_world (handlePaymentIntentSucceeded (demo_intent []) demo_world))"
proof -
  let ?w2 = "invoke (MarkPaymentIntentProcessed ''pi_1'') (invoke (IsPaymentIntentProcessed ''pi_1'') demo_world)"
  let ?g = "generateQRToken ?w2"
  let ?d = "new_Date (snd ?g)"
  let ?order = "\<lparr>paymentIntentId = ''pi_1'', qrToken = fst ?g, status = Valid, createdAt = fst ?d,
                  femaleQty = parseInt10 (or_default (map_of (metadata (demo_intent [])) ''femaleQty'') ''0''),
                  maleQty = parseInt10 (or_default (map_of (metadata (demo_intent [])) ''maleQty'') ''0'')\<rparr>"
  let ?w' = "handlePaymentIntentSucceeded (demo_intent []) demo_world"
  have pid: "''pi_1'' = id_PaymentIntent (demo_intent [])"
    by (simp add: demo_intent_def)
  have g: "(fst ?g, snd ?g) = ?g" and d: "(fst ?d, snd ?d) = ?d"
    by simp_all
  have q: "parseInt10 (or_default (map_of (metadata (demo_intent [])) ''femaleQty'') ''0'') = Finite 0"
      "parseInt10 (or_default (map_of (metadata (demo_intent [])) ''maleQty'') ''0'') = Finite 0"
    by (simp_all add: demo_intent_def or_default_def parseInt10_zero)
  have none: "getOrderByPaymentIntentId ''pi_1'' (orderStore demo_world) = None"
    using demo_fresh by simp
  have all: "?w' = invoke (SaveOrder ?order) (snd ?d) \<and>
         \<not> isPaymentIntentProcessed ''pi_1'' (orderStore (invoke (IsPaymentIntentProcessed ''pi_1'') demo_world)) \<and>
         isPaymentIntentProcessed ''pi_1'' (orderStore ?w2) \<and>
         getOrderByPaymentIntentId ''pi_1'' (orderStore ?w2) = getOrderByPaymentIntentId ''pi_1'' (orderStore demo_world) \<and>
         entropy_pos ?w2 = entropy_pos demo_world \<and>
         entropy_pos (snd ?g) = entropy_pos demo_world + 32 \<and>
         isPaymentIntentProcessed ''pi_1'' (orderStore (snd ?g)) \<and>
         isPaymentIntentProcessed ''pi_1'' (orderStore (snd ?d)) \<and>
         orders (orderStore (snd ?d)) = orders (orderStore demo_world) \<and>
         getOrderByPaymentIntentId ''pi_1'' (orderStore ?w') = Some ?order \<and>
         calls_since demo_world ?w2 =
           [OrderStore (IsPaymentIntentProcessed ''pi_1''), OrderStore (MarkPaymentIntentProcessed ''pi_1'')] \<and>
         calls_since demo_world ?w' =
           [OrderStore (IsPaymentIntentProcessed ''pi_1''),
            OrderStore (MarkPaymentIntentProcessed ''pi_1''),
            GenerateQRToken (fst ?g),
            NewDate,
            OrderStore (SaveOrder ?order)] \<and>
         preceded (\<lambda>c. c = OrderStore (MarkPaymentIntentProcessed ''pi_1'')) is_generateQRToken (calls_since demo_world ?w') \<and>
         preceded (\<lambda>c. c = OrderStore (MarkPaymentIntentProcessed ''pi_1'')) is_saveOrder (calls_since demo_world ?w') \<and>
         list_ex is_generateQRToken (calls_since demo_world ?w') \<and>
         list_ex is_saveOrder (calls_since demo_world ?w')"
    by (rule marking_precedes_token_and_order [OF pid conjunct1 [OF demo_fresh] refl refl g d refl refl])
  then have a: "isPaymentIntentProcessed ''pi_1'' (orderStore ?w2)"
    and b: "entropy_pos ?w2 = entropy_pos demo_world"
    and c: "getOrderByPaymentIntentId ''pi_1'' (orderStore ?w2) = getOrderByPaymentIntentId ''pi_1'' (orderStore demo_world)"
    and e: "isPaymentIntentProcessed ''pi_1'' (orderStore (snd ?d))"
    and f: "getOrderByPaymentIntentId ''pi_1'' (orderStore ?w') = Some ?order"
    and p1: "preceded (\<lambda>c. c = OrderStore (MarkPaymentIntentProcessed ''pi_1'')) is_generateQRToken (calls_since demo_world ?w')"
    and p2: "preceded (\<lambda>c. c = OrderStore (MarkPaymentIntentProcessed ''pi_1'')) is_saveOrder (calls_since demo_world ?w')"
    by blast+
  have c': "getOrderByPaymentIntentId ''pi_1'' (orderStore ?w2) = None"
    by (simp only: c none)
  have f': "getOrderByPaymentIntentId ''pi_1'' (orderStore ?w') =
     Some \<lparr>paymentIntentId = ''pi_1'', qrToken = fst ?g, status = Valid, createdAt = fst ?d,
            femaleQty = Finite 0, maleQty = Finite 0\<rparr>"
    by (simp only: f q)
  from conjunct1 [OF demo_fresh] a b c' e f' p1 p2 show ?thesis by blast
qed

section \<open>The order query\<close>

text \<open>
  Claim C7, as stated, fails: the route checks the format of the identifier before it
  looks anything up. The identifier \<open>''abc''\<close> has no order in the fresh store, and the
  query for it is answered with the error status 400, not with \<open>pending\<close>.
\<close>

theorem query_unknown_identifier_counterexample:
  "getOrderByPaymentIntentId ''abc'' (orderStore demo_world) = None \<and>
   fst (orders_get_qr (demo_ext []) ''abc'' demo_world) =
     send 400 (ErrorBody ''Invalid PaymentIntent ID format'') \<and>
   fst (orders_get_qr (demo_ext []) ''abc'' demo_world) \<noteq> send 200 Pending"
  by (simp add: orders_get_qr_def startsWith_def send_def demo_world_def initial_world_def
        new_InMemoryOrderStore_def getOrderByPaymentIntentId_def)

text \<open>
  Claim C7, amended. For every identifier that begins with \<open>pi_\<close> and has no order in
  the store, the query is answered with status 200 and the body \<open>pending\<close>, whatever
  the collaborators do. Every identifier that does not begin with \<open>pi_\<close> is answered
  with status 400 and the error \<open>Invalid PaymentIntent ID format\<close> before any lookup:
  the handler makes no call and leaves the world as it was.
\<close>

theorem query_unknown_identifier_pending:
  "(startsWith pid ''pi_'' \<and> getOrderByPaymentIntentId pid (orderStore w) = None \<longrightarrow>
      fst (orders_get_qr ext pid w) = send 200 Pending \<and>
      statusCode (fst (orders_get_qr ext pid w)) = 200 \<and>
      payload (fst (orders_get_qr ext pid w)) = Pending) \<and>
   (\<not> startsWith pid ''pi_'' \<longrightarrow>
      fst (orders_get_qr ext pid w) = send 400 (ErrorBody ''Invalid PaymentIntent ID format'') \<and>
      statusCode (fst (orders_get_qr ext pid w)) = 400 \<and>
      snd (orders_get_qr ext pid w) = w \<and>
      calls_since w (snd (orders_get_qr ext pid w)) = [])"
proof (intro conjI impI)
  assume a: "startsWith pid ''pi_'' \<and> getOrderByPaymentIntentId pid (orderStore w) = None"
  then have "pid \<noteq> []"
    by (auto simp: startsWith_def)
  with a show "fst (orders_get_qr ext pid w) = send 200 Pending"
    and "statusCode (fst (orders_get_qr ext pid w)) = 200"
    and "payload (fst (orders_get_qr ext pid w)) = Pending"
    by (simp_all add: orders_get_qr_def send_def Let_def)
next
  assume "\<not> startsWith pid ''pi_''"
  then show "fst (orders_get_qr ext pid w) = send 400 (ErrorBody ''Invalid PaymentIntent ID format'')"
    and "statusCode (fst (orders_get_qr ext pid w)) = 400"
    and "snd (orders_get_qr ext pid w) = w"
    and "calls_since w (snd (orders_get_qr ext pid w)) = []"
    by (simp_all add: orders_get_qr_def send_def calls_since_def)
qed

theorem query_unknown_identifier_pending_witness:
  "startsWith ''pi_404'' ''pi_'' \<and>
   getOrderByPaymentIntentId ''pi_404'' (orderStore demo_world) = None \<and>
   statusCode (fst (orders_get_qr (demo_ext []) ''pi_404'' demo_world)) = 200 \<and>
   payload (fst (orders_get_qr (demo_ext []) ''pi_404'' demo_world)) = Pending \<and>
   \<not> startsWith ''order-17'' ''pi_'' \<and>
   fst (orders_get_qr (demo_ext []) ''order-17'' demo_world) =
     send 400 (ErrorBody ''Invalid PaymentIntent ID format'') \<and>
   snd (orders_get_qr (demo_ext []) ''order-17'' demo_world) = demo_world"
proof -
  have p: "startsWith ''pi_404'' ''pi_''"
    by (simp add: startsWith_def)
  have n: "getOrderByPaymentIntentId ''pi_404'' (orderStore demo_world) = None"
    by (simp add: demo_world_def initial_world_def new_InMemoryOrderStore_def
          getOrderByPaymentIntentId_def)
  have q: "\<not> startsWith ''order-17'' ''pi_''"
    by (simp add: startsWith_def)
  from query_unknown_identifier_pending [of "''pi_404''" demo_world "demo_ext []"]
       query_unknown_identifier_pending [of "''order-17''" demo_world "demo_ext []"] p n q
  show ?thesis by blast
qed

text \<open>
  Claim C10. Whatever the outcome of a query (format rejected, pending, ready, or the
  image could not be rendered), the store after the request is the store before it: the
  entries of the order map and the processed identifiers are the same. The reply is one
  of those four.
\<close>

theorem query_leaves_store_unchanged:
  "orderStore (snd (orders_get_qr ext pid w)) = orderStore w \<and>
   orders (orderStore (snd (orders_get_qr ext pid w))) = orders (orderStore w) \<and>
   processedPaymentIntents (orderStore (snd (orders_get_qr ext pid w))) =
     processedPaymentIntents (orderStore w) \<and>
   (fst (orders_get_qr ext pid w) = send 400 (ErrorBody ''Invalid PaymentIntent ID format'') \<or>
    fst (orders_get_qr ext pid w) = send 200 Pending \<or>
    (\<exists>token image. fst (orders_get_qr ext pid w) = send 200 (Ready token image)) \<or>
    fst (orders_get_qr ext pid w) = send 500 (ErrorBody ''Failed to generate QR code''))"
proof -
  have outcome:
    "fst (orders_get_qr ext pid w) = send 400 (ErrorBody ''Invalid PaymentIntent ID format'') \<or>
     fst (orders_get_qr ext pid w) = send 200 Pending \<or>
     (\<exists>token image. fst (orders_get_qr ext pid w) = send 200 (Ready token image)) \<or>
     fst (orders_get_qr ext pid w) = send 500 (ErrorBody ''Failed to generate QR code'')"
    by (auto simp: orders_get_qr_def generateQRCodeDataUrl_def Let_def
          split: option.splits sum.splits prod.splits)
  then show ?thesis
    by (simp add: orders_get_qr_store)
qed


theorem query_leaves_store_unchanged_witness:
  "orderStore (snd (orders_get_qr (demo_ext []) ''pi_1'' demo_world)) = orderStore demo_world \<and>
   fst (orders_get_qr (demo_ext []) ''pi_1'' demo_world) = send 200 Pending \<and>
   orderStore (snd (orders_get_qr (demo_ext []) ''abc'' demo_world)) = orderStore demo_world \<and>
   fst (orders_get_qr (demo_ext []) ''abc'' demo_world) = send 400 (ErrorBody ''Invalid PaymentIntent ID format'')"
proof -
  have a: "fst (orders_get_qr (demo_ext []) ''pi_1'' demo_world) = send 200 Pending"
    by (simp add: orders_get_qr_def startsWith_def send_def demo_world_def initial_world_def
          new_InMemoryOrderStore_def getOrderByPaymentIntentId_def)
  have b: "fst (orders_get_qr (demo_ext []) ''abc'' demo_world) =
             send 400 (ErrorBody ''Invalid PaymentIntent ID format'')"
    by (simp add: orders_get_qr_def startsWith_def)
  from query_leaves_store_unchanged [of "demo_ext []" "''pi_1''" demo_world]
       query_leaves_store_unchanged [of "demo_ext []" "''abc''" demo_world] a b
  show ?thesis by blast
qed

section \<open>The checkout\<close>

lemma zero_quantity_parsed:
  "number_int_min0 msg key (Some (JNum (Finite 0))) = ([], Clean (Finite 0))"
  by (simp add: number_int_min0_def with_issues_def js_less_def)

lemma language_parsed_cases:
  "(\<exists>l. enum_language_default key input = ([], Clean l)) \<or>
   enum_language_default key input = ([\<lparr>path = [key], issue_message = DefaultMessage\<rparr>], Aborted)"
  by (auto simp: enum_language_default_def split: option.splits json.splits)

lemma zero_quantities_schema:
  assumes "property members ''femaleQty'' = Some (JNum (Finite 0))"
    and "property members ''maleQty'' = Some (JNum (Finite 0))"
  shows "(\<exists>language. createIntentSchema (Some (JObj members)) =
           ([\<lparr>path = [], issue_message = Message ''At least one ticket must be selected''\<rparr>],
            Dirty \<lparr>femaleQty_Body = Finite 0, maleQty_Body = Finite 0, language_Body = language\<rparr>)) \<or>
         createIntentSchema (Some (JObj members)) =
           ([\<lparr>path = [''language''], issue_message = DefaultMessage\<rparr>], Aborted)"
  using language_parsed_cases [of "''language''" "property members ''language''"] assms
  by (auto simp: createIntentSchema_def createIntentObject_def zero_quantity_parsed
        with_issues_def at_least_one_ticket_def)

text \<open>
  Claim C6. Let the body of a create-intent request be an object whose members
  \<open>femaleQty\<close> and \<open>maleQty\<close> are both the number zero, whatever else it holds. Then the
  request is answered with status 400 and the body \<open>Validation failed\<close> with a non-empty
  list of details, each a field and a message: the one detail says that at least one
  ticket must be selected, or, when the language is not an allowed one, the one detail
  names the field \<open>language\<close>. The intent
  creation of the payment processor is not called: the handler makes no call at all and
  leaves the world as it was.
\<close>

theorem zero_quantities_rejected:
  assumes "property members ''femaleQty'' = Some (JNum (Finite 0))"
    and "property members ''maleQty'' = Some (JNum (Finite 0))"
    and "result = checkout_create_intent ext (Some (JObj members)) w"
  shows "statusCode (fst result) = 400 \<and>
         (payload (fst result) =
            ValidationFailed [\<lparr>field = [], message = Message ''At least one ticket must be selected''\<rparr>] \<or>
          payload (fst result) = ValidationFailed [\<lparr>field = ''language'', message = DefaultMessage\<rparr>]) \<and>
         snd result = w \<and>
         calls_since w (snd result) = [] \<and>
         \<not> list_ex is_paymentIntents_create (calls_since w (snd result))"
  using zero_quantities_schema [OF assms(1,2)] assms(3)
  by (auto simp: checkout_create_intent_def safeParse_def send_def calls_since_def)

theorem zero_quantities_rejected_witness:
  "property [(''femaleQty'', JNum (Finite 0)), (''maleQty'', JNum (Finite 0)), (''language'', JStr ''es'')] ''femaleQty''
     = Some (JNum (Finite 0)) \<and>
   property [(''femaleQty'', JNum (Finite 0)), (''maleQty'', JNum (Finite 0)), (''language'', JStr ''es'')] ''maleQty''
     = Some (JNum (Finite 0)) \<and>
   fst (checkout_create_intent (demo_ext [])
         (Some (JObj [(''femaleQty'', JNum (Finite 0)), (''maleQty'', JNum (Finite 0)), (''language'', JStr ''es'')]))
         demo_world) =
     send 400 (ValidationFailed [\<lparr>field = [], message = Message ''At least one ticket must be selected''\<rparr>]) \<and>
   snd (checkout_create_intent (demo_ext [])
         (Some (JObj [(''femaleQty'', JNum (Finite 0)), (''maleQty'', JNum (Finite 0)), (''language'', JStr ''es'')]))
         demo_world) = demo_world"
proof -
  let ?members = "[(''femaleQty'', JNum (Finite 0)), (''maleQty'', JNum (Finite 0)), (''language'', JStr ''es'')]"
  have f: "property ?members ''femaleQty'' = Some (JNum (Finite 0))"
    by (simp add: property_def)
  have m: "property ?members ''maleQty'' = Some (JNum (Finite 0))"
    by (simp add: property_def)
  have l: "property ?members ''language'' = Some (JStr ''es'')"
    by (simp add: property_def)
  have reply: "fst (checkout_create_intent (demo_ext []) (Some (JObj ?members)) demo_world) =
     send 400 (ValidationFailed [\<lparr>field = [], message = Message ''At least one ticket must be selected''\<rparr>])"
    by (simp add: checkout_create_intent_def safeParse_def createIntentSchema_def
          createIntentObject_def f m l zero_quantity_parsed enum_language_default_def
          with_issues_def at_least_one_ticket_def)
  from zero_quantities_rejected [OF f m refl, of "demo_ext []" demo_world] f m reply
  show ?thesis by blast
qed

section \<open>Rounding to binary64\<close>

lemma pow2_powi: "pow2 e = 2 powi e"
  by (simp add: pow2_def power_int_def inverse_eq_divide power_one_over)

lemma pow2_pos [simp]: "0 < pow2 e"
  by (simp add: pow2_powi)

lemma pow2_nonneg [simp]: "0 \<le> pow2 e"
  using pow2_pos [of e] by (simp only: less_imp_le)

lemma pow2_nonzero [simp]: "pow2 e \<noteq> 0"
  using pow2_pos [of e] by (simp only: less_imp_neq [THEN not_sym] not_False_eq_True)

lemma pow2_abs [simp]: "\<bar>pow2 e\<bar> = pow2 e"
  by (simp add: abs_of_pos)

lemma pow2_add: "pow2 (a + b) = pow2 a * pow2 b"
  by (simp add: pow2_powi power_int_add)

lemma pow2_less_iff: "pow2 a < pow2 b \<longleftrightarrow> a < b"
proof
  assume "pow2 a < pow2 b"
  show "a < b"
  proof (rule ccontr)
    assume "\<not> a < b"
    then have "b \<le> a" by simp
    then have "pow2 b \<le> pow2 a"
      unfolding pow2_powi by (intro power_int_increasing) simp_all
    with \<open>pow2 a < pow2 b\<close> show False by simp
  qed
next
  assume "a < b"
  then show "pow2 a < pow2 b"
    unfolding pow2_powi by (intro power_int_strict_increasing) simp_all
qed

lemma pow2_le_iff: "pow2 a \<le> pow2 b \<longleftrightarrow> a \<le> b"
  using pow2_less_iff [of b a] by (auto simp: not_less [symmetric])

lemma pow2_nat: "pow2 (int n) = 2 ^ n"
  by (simp add: pow2_def)

lemma pow2_diff: "pow2 (a - b) = pow2 a / pow2 b"
  by (simp add: pow2_powi power_int_diff)

lemma ilog2_bounds:
  assumes "x \<noteq> 0"
  shows "pow2 (ilog2 x) \<le> \<bar>x\<bar> \<and> \<bar>x\<bar> < pow2 (ilog2 x + 1)"
proof -
  obtain p q where pq: "quotient_of \<bar>x\<bar> = (p, q)" by (cases "quotient_of \<bar>x\<bar>")
  then have q: "0 < q" by (rule quotient_of_denom_pos)
  have x: "\<bar>x\<bar> = of_int p / of_int q"
    using pq by (rule quotient_of_div)
  have "0 < \<bar>x\<bar>" using assms by simp
  with x q have p: "0 < p"
    by (simp add: zero_less_divide_iff)
  let ?d = "bitlen p - bitlen q"
  have bp: "1 \<le> bitlen p" and bq: "1 \<le> bitlen q"
    using p q bitlen_eq_zero_iff [of p] bitlen_eq_zero_iff [of q] bitlen_nonneg [of p] bitlen_nonneg [of q]
    by linarith+
  from bitlen_bounds [OF p] have p1: "pow2 (bitlen p - 1) \<le> of_int p" and p2: "of_int p < pow2 (bitlen p)"
    using bp
    by (simp_all add: pow2_def)
  from bitlen_bounds [OF q] have q1: "pow2 (bitlen q - 1) \<le> of_int q" and q2: "of_int q < pow2 (bitlen q)"
    using bq
    by (simp_all add: pow2_def)
  have qpos: "(0::rat) < of_int q" using q by simp
  have ppos: "(0::rat) < of_int p" using p by simp
  have up: "\<bar>x\<bar> < pow2 (?d + 1)"
  proof -
    have "of_int p / of_int q < pow2 (bitlen p) / (of_int q :: rat)"
      using p2 qpos by (intro divide_strict_right_mono) simp_all
    also have "\<dots> \<le> pow2 (bitlen p) / pow2 (bitlen q - 1)"
      using q1 qpos by (intro divide_left_mono) (simp_all add: less_imp_le)
    also have "\<dots> = pow2 (?d + 1)"
      by (simp add: pow2_diff [symmetric] algebra_simps)
    finally show ?thesis by (simp add: x)
  qed
  have lo: "pow2 (?d - 1) < \<bar>x\<bar>"
  proof -
    have "pow2 (?d - 1) = pow2 (bitlen p - 1) / pow2 (bitlen q)"
      by (simp add: pow2_diff [symmetric] algebra_simps)
    also have "\<dots> \<le> of_int p / pow2 (bitlen q)"
      using p1 by (intro divide_right_mono) (simp_all add: less_imp_le)
    also have "\<dots> < of_int p / (of_int q :: rat)"
      using q2 qpos ppos by (intro divide_strict_left_mono) simp_all
    finally show ?thesis by (simp add: x)
  qed
  show ?thesis
  proof (cases "pow2 ?d \<le> \<bar>x\<bar>")
    case True
    then have "ilog2 x = ?d" by (simp add: ilog2_def pq Let_def)
    with True up show ?thesis by simp
  next
    case False
    then have "ilog2 x = ?d - 1" by (simp add: ilog2_def pq Let_def)
    with False lo show ?thesis by simp
  qed
qed

lemma ilog2_unique:
  assumes "pow2 e \<le> \<bar>x\<bar>" and "\<bar>x\<bar> < pow2 (e + 1)"
  shows "ilog2 x = e"
proof -
  have "0 < \<bar>x\<bar>" using assms(1) pow2_pos [of e] by linarith
  then have "x \<noteq> 0" by simp
  from ilog2_bounds [OF this] have a: "pow2 (ilog2 x) \<le> \<bar>x\<bar>" and b: "\<bar>x\<bar> < pow2 (ilog2 x + 1)"
    by simp_all
  from a assms(2) have "pow2 (ilog2 x) < pow2 (e + 1)" by simp
  then have 1: "ilog2 x < e + 1" by (simp add: pow2_less_iff)
  from assms(1) b have "pow2 e < pow2 (ilog2 x + 1)" by simp
  then have 2: "e < ilog2 x + 1" by (simp add: pow2_less_iff)
  from 1 2 show ?thesis by simp
qed


lemma round_half_even_of_int [simp]: "round_half_even (of_int n) = n"
  by (simp add: round_half_even_def)

lemma round_half_even_near: "\<bar>of_int (round_half_even x) - x\<bar> \<le> 1 / 2"
proof -
  have "of_int \<lfloor>x\<rfloor> \<le> x" and "x < of_int \<lfloor>x\<rfloor> + 1"
    by linarith+
  then show ?thesis
    by (auto simp: round_half_even_def Let_def)
qed

lemma round_half_even_unique:
  assumes "\<bar>x - of_int n\<bar> < 1 / 2"
  shows "round_half_even x = n"
proof -
  have "\<bar>of_int (round_half_even x) - x\<bar> \<le> 1 / 2"
    by (rule round_half_even_near)
  with assms have "\<bar>(of_int (round_half_even x) :: rat) - of_int n\<bar> < 1"
    by linarith
  then have "\<bar>(of_int (round_half_even x - n) :: rat)\<bar> < 1"
    by simp
  then have "\<bar>round_half_even x - n\<bar> < 1"
    by (metis of_int_abs of_int_less_1_iff)
  then show ?thesis by simp
qed

lemma fl_normal:
  assumes "pow2 e \<le> \<bar>x\<bar>" and "\<bar>x\<bar> < pow2 (e + 1)" and "- 1022 \<le> e"
  shows "fl x =
           (if 2 ^ 1024 \<le> \<bar>of_int (round_half_even (x / pow2 (e - 52))) * pow2 (e - 52)\<bar>
            then (if 0 < x then PosInfinity else NegInfinity)
            else Finite (of_int (round_half_even (x / pow2 (e - 52))) * pow2 (e - 52)))"
proof -
  have "0 < \<bar>x\<bar>" using assms(1) pow2_pos [of e] by linarith
  then have nz: "x \<noteq> 0" by simp
  have "ilog2 x = e" using assms(1,2) by (rule ilog2_unique)
  with assms(3) have "max (ilog2 x) (- 1022) = e" by simp
  with nz show ?thesis by (simp add: fl_def Let_def)
qed

lemma fl_near:
  assumes "pow2 e \<le> \<bar>x\<bar>" and "\<bar>x\<bar> < pow2 (e + 1)" and "- 1022 \<le> e" and "e \<le> 1022"
  shows "\<exists>y. fl x = Finite y \<and> \<bar>y - x\<bar> \<le> pow2 (e - 53)"
proof -
  let ?q = "pow2 (e - 52)"
  let ?n = "round_half_even (x / ?q)"
  let ?y = "of_int ?n * ?q"
  have q: "0 < ?q" by simp
  have "\<bar>of_int ?n - x / ?q\<bar> \<le> 1 / 2" by (rule round_half_even_near)
  then have "\<bar>of_int ?n - x / ?q\<bar> * ?q \<le> 1 / 2 * ?q"
    using q by (intro mult_right_mono) simp_all
  moreover have "\<bar>of_int ?n - x / ?q\<bar> * ?q = \<bar>?y - x\<bar>"
  proof -
    have "\<bar>of_int ?n - x / ?q\<bar> * ?q = \<bar>(of_int ?n - x / ?q) * ?q\<bar>"
      using q by (simp add: abs_mult)
    also have "(of_int ?n - x / ?q) * ?q = ?y - x"
      using q by (simp add: algebra_simps)
    finally show ?thesis .
  qed
  moreover have "1 / 2 * ?q = pow2 (e - 53)"
  proof -
    have "pow2 (e - 52) = pow2 (e - 53) * pow2 1"
      using pow2_add [of "e - 53" 1] by simp
    then show ?thesis by (simp add: pow2_def)
  qed
  ultimately have near: "\<bar>?y - x\<bar> \<le> pow2 (e - 53)" by simp
  have "pow2 (e - 53) < pow2 (e + 1)" by (simp add: pow2_less_iff)
  with near assms(2) have "\<bar>?y\<bar> < pow2 (e + 1) + pow2 (e + 1)" by linarith
  also have "\<dots> = pow2 (e + 2)"
  proof -
    have "pow2 (e + 2) = pow2 (e + 1) * pow2 1"
      using pow2_add [of "e + 1" 1] by (simp add: add.assoc)
    then show ?thesis by (simp add: pow2_def)
  qed
  also have "\<dots> \<le> pow2 1024"
    using assms(4) by (simp add: pow2_le_iff)
  finally have "\<bar>?y\<bar> < 2 ^ 1024" by (simp add: pow2_def)
  then have "fl x = Finite ?y"
    using fl_normal [OF assms(1-3)] by simp
  with near show ?thesis by blast
qed

lemma fl_relative:
  assumes "1 / 2 ^ 1022 \<le> \<bar>x\<bar>" and "\<bar>x\<bar> \<le> 2 ^ 1022"
  shows "\<exists>y. fl x = Finite y \<and> \<bar>y - x\<bar> \<le> \<bar>x\<bar> / 2 ^ 53"
proof -
  have "0 < \<bar>x\<bar>"
  proof -
    have "(0::rat) < 1 / 2 ^ 1022" by simp
    with assms(1) show ?thesis by linarith
  qed
  then have nz: "x \<noteq> 0" by simp
  let ?e = "ilog2 x"
  from ilog2_bounds [OF nz] have lo: "pow2 ?e \<le> \<bar>x\<bar>" and hi: "\<bar>x\<bar> < pow2 (?e + 1)"
    by simp_all
  have "pow2 (- 1022) \<le> \<bar>x\<bar>" using assms(1) by (simp add: pow2_def)
  with hi have "pow2 (- 1022) < pow2 (?e + 1)" by linarith
  then have e1: "- 1022 \<le> ?e" by (simp add: pow2_less_iff)
  have "\<bar>x\<bar> < pow2 1023"
  proof -
    have "(2::rat) ^ 1022 < 2 ^ 1023" by simp
    with assms(2) show ?thesis by (simp add: pow2_def)
  qed
  with lo have "pow2 ?e < pow2 1023" by linarith
  then have e2: "?e \<le> 1022" by (simp add: pow2_less_iff)
  from fl_near [OF lo hi e1 e2] obtain y where y: "fl x = Finite y" "\<bar>y - x\<bar> \<le> pow2 (?e - 53)"
    by blast
  have "pow2 53 = 2 ^ 53" by (simp add: pow2_def)
  then have "pow2 (?e - 53) = pow2 ?e / 2 ^ 53"
    by (simp only: pow2_diff)
  also have "\<dots> \<le> \<bar>x\<bar> / 2 ^ 53"
    using lo by (intro divide_right_mono) simp_all
  finally show ?thesis using y by force
qed

lemma fl_exact:
  assumes "x = of_int m * pow2 k" and "\<bar>m\<bar> < 2 ^ 53" and "- 1074 \<le> k" and "\<bar>x\<bar> < 2 ^ 1024"
  shows "fl x = Finite x"
proof (cases "x = 0")
  case True
  then show ?thesis by (simp add: fl_def)
next
  case False
  let ?e = "max (ilog2 x) (- 1022)"
  from ilog2_bounds [OF False] have lo: "pow2 (ilog2 x) \<le> \<bar>x\<bar>" by simp
  have "\<bar>x\<bar> = of_int \<bar>m\<bar> * pow2 k"
    by (simp add: assms(1) abs_mult)
  also have "\<dots> < 2 ^ 53 * pow2 k"
  proof -
    have "(of_int \<bar>m\<bar> :: rat) < of_int (2 ^ 53)"
      using assms(2) by (simp only: of_int_less_iff)
    then show ?thesis by (intro mult_strict_right_mono) simp_all
  qed
  also have "\<dots> = pow2 (53 + k)"
  proof -
    have "pow2 53 = 2 ^ 53" by (simp add: pow2_def)
    then show ?thesis by (simp only: pow2_add)
  qed
  finally have "pow2 (ilog2 x) < pow2 (53 + k)" using lo by linarith
  then have "ilog2 x < 53 + k" by (simp add: pow2_less_iff)
  with assms(3) have j: "0 \<le> k - ?e + 52" by simp
  have "x / pow2 (?e - 52) = of_int m * (pow2 k / pow2 (?e - 52))"
    by (simp add: assms(1))
  also have "pow2 k / pow2 (?e - 52) = pow2 (k - ?e + 52)"
    by (simp add: pow2_diff [symmetric] algebra_simps)
  also have "\<dots> = of_int (2 ^ nat (k - ?e + 52))"
    using j by (simp add: pow2_def)
  finally have "x / pow2 (?e - 52) = of_int (m * 2 ^ nat (k - ?e + 52))"
    by simp
  then have "round_half_even (x / pow2 (?e - 52)) = m * 2 ^ nat (k - ?e + 52)"
    by (simp only: round_half_even_of_int)
  then have "of_int (round_half_even (x / pow2 (?e - 52))) * pow2 (?e - 52) =
             x / pow2 (?e - 52) * pow2 (?e - 52)"
    using \<open>x / pow2 (?e - 52) = of_int (m * 2 ^ nat (k - ?e + 52))\<close> by simp
  also have "\<dots> = x" by simp
  finally have y: "of_int (round_half_even (x / pow2 (?e - 52))) * pow2 (?e - 52) = x" .
  show ?thesis
    using False assms(4) by (simp add: fl_def Let_def y)
qed

lemma fl_of_int:
  assumes "\<bar>n\<bar> < 2 ^ 53"
  shows "fl (of_int n) = Finite (of_int n)"
proof -
  have b: "\<bar>(of_int n :: rat)\<bar> < 2 ^ 1024"
  proof -
    have "(of_int \<bar>n\<bar> :: rat) < of_int (2 ^ 53)"
      using assms by (simp only: of_int_less_iff)
    moreover have "(2::rat) ^ 53 < 2 ^ 1024" by simp
    ultimately show ?thesis by simp
  qed
  show ?thesis
    by (rule fl_exact [where m = n and k = 0, OF _ assms _ b]) (simp_all add: pow2_def)
qed

section \<open>Pricing\<close>

lemma fl_relative_moderate:
  assumes "1 / 16 \<le> x" and "x \<le> 18446744073709551616"
  shows "\<exists>y. fl x = Finite y \<and> \<bar>y - x\<bar> \<le> x / 9007199254740992"
proof -
  have pos: "0 < x" using assms(1) by linarith
  have "(1::rat) / 2 ^ 1022 \<le> 1 / 2 ^ 4"
    by (intro divide_left_mono power_increasing) simp_all
  then have "(1::rat) / 2 ^ 1022 \<le> 1 / 16" by simp
  with assms(1) pos have lo: "1 / 2 ^ 1022 \<le> \<bar>x\<bar>" by (simp only: abs_of_pos order_trans)
  have "(2::rat) ^ 64 \<le> 2 ^ 1022"
    by (intro power_increasing) simp_all
  moreover have "(18446744073709551616::rat) = 2 ^ 64" by simp
  ultimately have "x \<le> 2 ^ 1022" using assms(2) by (simp only: order_trans)
  then have hi: "\<bar>x\<bar> \<le> 2 ^ 1022" using pos by (simp only: abs_of_pos)
  have "(9007199254740992::rat) = 2 ^ 53" by simp
  with fl_relative [OF lo hi] pos show ?thesis by (simp only: abs_of_pos)
qed

lemma FEE_PERCENTAGE_value: "FEE_PERCENTAGE = Finite (5764607523034235 / 72057594037927936)"
proof -
  have n: "round_half_even ((8 / 100) / pow2 (- 4 - 52)) = 5764607523034235"
    by (rule round_half_even_unique) (simp add: pow2_def)
  have "fl (8 / 100) = Finite (of_int 5764607523034235 * pow2 (- 4 - 52))"
    by (subst fl_normal [where e = "- 4"]) (simp_all add: pow2_def n [simplified pow2_def, simplified])
  then show ?thesis by (simp add: FEE_PERCENTAGE_def pow2_def)
qed


lemma fee_chain:
  fixes s t1 t2 :: rat
  assumes "1 \<le> s" and "s \<le> 17592186044416"
    and "\<bar>t1 - s * (5764607523034235 / 72057594037927936)\<bar>
           \<le> s * (5764607523034235 / 72057594037927936) / 9007199254740992"
  shows "1 / 16 \<le> t1 * 100" and "t1 * 100 \<le> 18446744073709551616"
    and "\<bar>t2 - t1 * 100\<bar> \<le> t1 * 100 / 9007199254740992 \<Longrightarrow> \<bar>t2 - 8 * s\<bar> < 1 / 2"
  using assms by linarith+

lemma rat_of_quantity:
  fixes S :: int
  assumes "1 \<le> S" and "S \<le> 2 ^ 44"
  shows "1 \<le> (of_int S :: rat)" and "(of_int S :: rat) \<le> 17592186044416"
proof -
  show "1 \<le> (of_int S :: rat)" using assms(1) by simp
  have "(of_int S :: rat) \<le> of_int (2 ^ 44)" using assms(2) by (simp only: of_int_le_iff)
  then show "(of_int S :: rat) \<le> 17592186044416" by simp
qed

lemma fee_cents_rounds:
  fixes S :: int
  assumes "1 \<le> S" and "S \<le> 2 ^ 44"
  shows "Math_round (js_times (js_times (Finite (of_int S)) FEE_PERCENTAGE) (Finite 100)) = Finite (of_int (8 * S))"
proof -
  let ?s = "of_int S :: rat"
  let ?c = "5764607523034235 / 72057594037927936 :: rat"
  note s = rat_of_quantity [OF assms]
  have "1 / 16 \<le> ?s * ?c" and "?s * ?c \<le> 18446744073709551616"
    using s by linarith+
  then have "\<exists>y. fl (?s * ?c) = Finite y \<and> \<bar>y - ?s * ?c\<bar> \<le> ?s * ?c / 9007199254740992"
    by (rule fl_relative_moderate)
  then obtain t1 where t1: "fl (?s * ?c) = Finite t1"
      "\<bar>t1 - ?s * ?c\<bar> \<le> ?s * ?c / 9007199254740992"
    by blast
  have "\<exists>y. fl (t1 * 100) = Finite y \<and> \<bar>y - t1 * 100\<bar> \<le> t1 * 100 / 9007199254740992"
    using fee_chain(1,2) [OF s t1(2)] by (rule fl_relative_moderate)
  then obtain t2 where t2: "fl (t1 * 100) = Finite t2"
      "\<bar>t2 - t1 * 100\<bar> \<le> t1 * 100 / 9007199254740992"
    by blast
  have "\<bar>t2 - of_int (8 * S)\<bar> < 1 / 2"
    using fee_chain(3) [OF s t1(2) t2(2)] by simp
  then have r: "round t2 = 8 * S"
    by (rule round_unique')
  have a: "js_times (Finite ?s) FEE_PERCENTAGE = Finite t1"
    by (simp only: FEE_PERCENTAGE_value js_times.simps t1(1))
  have b: "js_times (Finite t1) (Finite 100) = Finite t2"
    by (simp only: js_times.simps t2(1))
  show ?thesis
    by (simp only: a b Math_round.simps r)
qed


lemma subtotal_exact:
  fixes f m :: nat
  assumes "f + 2 * m \<le> 2 ^ 44"
  shows "js_plus (js_times (Finite (of_nat f)) FEMALE_TICKET_PRICE)
           (js_times (Finite (of_nat m)) MALE_TICKET_PRICE) = Finite (of_int (int f + 2 * int m))"
proof -
  have small: "(2::int) ^ 44 < 2 ^ 53" by simp
  have "int (f + 2 * m) \<le> 2 ^ 44"
    using assms by (metis of_nat_le_iff of_nat_numeral of_nat_power)
  then have b: "int f + 2 * int m \<le> 2 ^ 44" by simp
  have "fl (of_int (int f)) = Finite (of_int (int f))"
    using b small by (intro fl_of_int) linarith
  then have a1: "js_times (Finite (of_nat f)) FEMALE_TICKET_PRICE = Finite (of_int (int f))"
    by (simp add: FEMALE_TICKET_PRICE_def)
  have "fl (of_int (2 * int m)) = Finite (of_int (2 * int m))"
    using b small by (intro fl_of_int) linarith
  then have a2: "js_times (Finite (of_nat m)) MALE_TICKET_PRICE = Finite (of_int (2 * int m))"
    by (simp add: MALE_TICKET_PRICE_def mult.commute)
  have "fl (of_int (int f + 2 * int m)) = Finite (of_int (int f + 2 * int m))"
    using b small by (intro fl_of_int) linarith
  then have a3: "js_plus (Finite (of_int (int f))) (Finite (of_int (2 * int m))) =
                   Finite (of_int (int f + 2 * int m))"
    by simp
  show ?thesis by (simp only: a1 a2 a3)
qed

lemma cents_chain:
  fixes s fv tv x :: rat
  assumes "1 \<le> s" and "s \<le> 17592186044416"
    and "\<bar>fv - 8 * s / 100\<bar> \<le> 8 * s / 100 / 9007199254740992"
  shows "1 / 16 \<le> s + fv" and "s + fv \<le> 18446744073709551616"
    and "\<bar>tv - (s + fv)\<bar> \<le> (s + fv) / 9007199254740992 \<Longrightarrow>
           1 / 16 \<le> tv * 100 \<and> tv * 100 \<le> 18446744073709551616 \<and>
           \<bar>tv - (s + 8 * s / 100)\<bar> \<le> (s + 8 * s / 100) / 4503599627370496"
    and "\<bar>tv - (s + fv)\<bar> \<le> (s + fv) / 9007199254740992 \<Longrightarrow>
         \<bar>x - tv * 100\<bar> \<le> tv * 100 / 9007199254740992 \<Longrightarrow> \<bar>x - 108 * s\<bar> < 1 / 2"
  using assms unfolding abs_le_iff abs_less_iff add_divide_distrib by safe linarith+

lemma total_and_cents:
  fixes S :: int
  assumes "1 \<le> S" and "S \<le> 2 ^ 44"
  shows "\<exists>tv. js_plus (Finite (of_int S)) (js_divide (Finite (of_int (8 * S))) (Finite 100)) = Finite tv \<and>
              \<bar>tv - (of_int S + 8 * of_int S / 100)\<bar> \<le> (of_int S + 8 * of_int S / 100) / 4503599627370496 \<and>
              dollarsToCents (Finite tv) = Finite (of_int (108 * S))"
proof -
  let ?s = "of_int S :: rat"
  note s = rat_of_quantity [OF assms]
  have "1 / 16 \<le> 8 * ?s / 100" and "8 * ?s / 100 \<le> 18446744073709551616"
    using s by linarith+
  then have "\<exists>y. fl (8 * ?s / 100) = Finite y \<and> \<bar>y - 8 * ?s / 100\<bar> \<le> 8 * ?s / 100 / 9007199254740992"
    by (rule fl_relative_moderate)
  then obtain fv where fv: "fl (8 * ?s / 100) = Finite fv"
      "\<bar>fv - 8 * ?s / 100\<bar> \<le> 8 * ?s / 100 / 9007199254740992"
    by blast
  have "\<exists>y. fl (?s + fv) = Finite y \<and> \<bar>y - (?s + fv)\<bar> \<le> (?s + fv) / 9007199254740992"
    using cents_chain(1,2) [OF s fv(2)] by (rule fl_relative_moderate)
  then obtain tv where tv: "fl (?s + fv) = Finite tv"
      "\<bar>tv - (?s + fv)\<bar> \<le> (?s + fv) / 9007199254740992"
    by blast
  note mid = cents_chain(3) [OF s fv(2) tv(2)]
  have "\<exists>y. fl (tv * 100) = Finite y \<and> \<bar>y - tv * 100\<bar> \<le> tv * 100 / 9007199254740992"
    using mid by (intro fl_relative_moderate) simp_all
  then obtain x where x: "fl (tv * 100) = Finite x"
      "\<bar>x - tv * 100\<bar> \<le> tv * 100 / 9007199254740992"
    by blast
  have "\<bar>x - of_int (108 * S)\<bar> < 1 / 2"
    using cents_chain(4) [OF s fv(2) tv(2) x(2)] by simp
  then have r: "round x = 108 * S"
    by (rule round_unique')
  have "js_divide (Finite (of_int (8 * S))) (Finite 100) = fl (8 * ?s / 100)"
    by simp
  then have a: "js_divide (Finite (of_int (8 * S))) (Finite 100) = Finite fv"
    by (simp only: fv(1))
  have b: "js_plus (Finite ?s) (Finite fv) = Finite tv"
    by (simp only: js_plus.simps tv(1))
  have c: "dollarsToCents (Finite tv) = Finite (of_int (108 * S))"
    by (simp only: dollarsToCents_def js_times.simps x(1) Math_round.simps r)
  from a b c mid show ?thesis by simp
qed


lemma spec_values:
  fixes f m :: nat
  shows "spec_subtotal f m = of_int (int f + 2 * int m)"
    and "spec_fee f m = 8 * of_int (int f + 2 * int m) / 100"
    and "spec_total f m = of_int (int f + 2 * int m) + 8 * of_int (int f + 2 * int m) / 100"
    and "spec_minor_units f m = 108 * (int f + 2 * int m)"
proof -
  let ?S = "int f + 2 * int m"
  show sub: "spec_subtotal f m = of_int ?S"
    by (simp add: spec_subtotal_def)
  have "of_int ?S * (8 / 100) * 100 = (of_int (8 * ?S) :: rat)"
    by simp
  then have "round ((of_int ?S :: rat) * (8 / 100) * 100) = 8 * ?S"
    by (simp only: round_of_int)
  then show fee: "spec_fee f m = 8 * of_int ?S / 100"
    by (simp add: spec_fee_def round_2_decimals_def sub)
  show tot: "spec_total f m = of_int ?S + 8 * of_int ?S / 100"
    by (simp only: spec_total_def sub fee)
  have "(of_int ?S + 8 * of_int ?S / 100) * 100 = (of_int (108 * ?S) :: rat)"
    by simp
  then have "round (((of_int ?S :: rat) + 8 * of_int ?S / 100) * 100) = 108 * ?S"
    by (simp only: round_of_int)
  then show "spec_minor_units f m = 108 * ?S"
    by (simp only: spec_minor_units_def tot)
qed

lemma fl_32_hundredths: "fl (32 / 100) = Finite (5764607523034235 / 18014398509481984)"
proof -
  have n: "round_half_even ((32 / 100) / pow2 (- 2 - 52)) = 5764607523034235"
    by (rule round_half_even_unique) (simp add: pow2_def)
  have "fl (32 / 100) = Finite (of_int 5764607523034235 * pow2 (- 2 - 52))"
    by (subst fl_normal [where e = "- 2"]) (simp_all add: pow2_def n [simplified pow2_def, simplified])
  then show ?thesis by (simp add: pow2_def)
qed

lemma fl_432_hundredths: "fl (432 / 100) = Finite (607985949695017 / 140737488355328)"
proof -
  have n: "round_half_even ((432 / 100) / pow2 (2 - 52)) = 4863887597560136"
    by (rule round_half_even_unique) (simp add: pow2_def)
  have "fl (432 / 100) = Finite (of_int 4863887597560136 * pow2 (2 - 52))"
    by (subst fl_normal [where e = 2]) (simp_all add: pow2_def n [simplified pow2_def, simplified])
  then show ?thesis by (simp add: pow2_def)
qed

lemma total_of_example: "js_plus (Finite 4) (fl (32 / 100)) = fl (432 / 100)"
proof -
  let ?x = "4 + 5764607523034235 / 18014398509481984 :: rat"
  have n: "round_half_even (?x / pow2 (2 - 52)) = 4863887597560136"
    by (rule round_half_even_unique) (simp add: pow2_def)
  have "fl ?x = Finite (of_int 4863887597560136 * pow2 (2 - 52))"
    by (subst fl_normal [where e = 2]) (simp_all add: pow2_def n [simplified pow2_def, simplified])
  then have "fl ?x = Finite (607985949695017 / 140737488355328)"
    by (simp add: pow2_def)
  then show ?thesis
    by (simp only: fl_32_hundredths fl_432_hundredths js_plus.simps)
qed

lemma subtotal_of_huge_quantity:
  "js_plus (js_times (Finite 18014398509481984) FEMALE_TICKET_PRICE) (js_times (Finite 1) MALE_TICKET_PRICE)
     = Finite 18014398509481984"
proof -
  have a: "fl 18014398509481984 = Finite 18014398509481984"
    by (rule fl_exact [where m = 1 and k = 54]) (simp_all add: pow2_def)
  have b: "fl 2 = Finite 2"
    using fl_of_int [of 2] by simp
  have "\<lfloor>9007199254740993 / 2 :: rat\<rfloor> = 4503599627370496"
    by (rule floor_unique) simp_all
  then have n: "round_half_even (18014398509481986 / pow2 (54 - 52)) = 4503599627370496"
    by (simp add: round_half_even_def pow2_def Let_def)
  have "fl 18014398509481986 = Finite (of_int 4503599627370496 * pow2 (54 - 52))"
    by (subst fl_normal [where e = 54]) (simp_all add: pow2_def n [simplified pow2_def, simplified])
  then have c: "fl 18014398509481986 = Finite 18014398509481984"
    by (simp add: pow2_def)
  show ?thesis
    by (simp add: FEMALE_TICKET_PRICE_def MALE_TICKET_PRICE_def a b c)
qed


text \<open>
  Claim C5, as stated, fails: the calculator computes in binary64, which cannot hold
  every integer. For the quantities \<open>2^54\<close> and \<open>1\<close> the subtotal in exact arithmetic is
  \<open>2^54 + 2\<close>, and the calculator returns \<open>2^54\<close>.
\<close>

theorem pricing_of_huge_quantities_counterexample:
  "subtotal (calculatePricing (Finite (of_nat 18014398509481984)) (Finite (of_nat 1))) =
     Finite 18014398509481984 \<and>
   spec_subtotal 18014398509481984 1 = 18014398509481986 \<and>
   subtotal (calculatePricing (Finite (of_nat 18014398509481984)) (Finite (of_nat 1))) \<noteq>
     Finite (spec_subtotal 18014398509481984 1)"
proof -
  have a: "subtotal (calculatePricing (Finite (of_nat 18014398509481984)) (Finite (of_nat 1))) =
     Finite 18014398509481984"
    using subtotal_of_huge_quantity by (simp add: calculatePricing_def Let_def)
  have b: "spec_subtotal 18014398509481984 1 = 18014398509481986"
    by (simp add: spec_subtotal_def)
  from a b show ?thesis by simp
qed

text \<open>
  Claim C5, amended. For all natural quantities with at least one positive and
  \<open>femaleQty + 2 * maleQty \<le> 2^44\<close>, the calculator returns the subtotal
  \<open>femaleQty * 1.00 + maleQty * 2.00\<close> exactly; the fee is the binary64 value nearest to
  the subtotal times 0.08 rounded to two decimals; the total is the binary64 sum of
  subtotal and fee, within a relative \<open>2^-52\<close> of the exact total; and the amount in minor
  units is exactly the exact total times 100, rounded, which is 108 times the subtotal.
  For the quantities 2 and 1 the subtotal is 4, the fee and the total are the binary64
  values of 0.32 and 4.32, and the amount in minor units is 432.
\<close>

theorem pricing_of_bounded_quantities:
  fixes f m :: nat
  assumes "0 < f \<or> 0 < m" and "f + 2 * m \<le> 2 ^ 44"
    and "pricing = calculatePricing (Finite (of_nat f)) (Finite (of_nat m))"
  shows "subtotal pricing = Finite (spec_subtotal f m) \<and>
         fee pricing = fl (spec_fee f m) \<and>
         total pricing = js_plus (subtotal pricing) (fee pricing) \<and>
         (\<exists>t. total pricing = Finite t \<and>
              \<bar>t - spec_total f m\<bar> \<le> spec_total f m / 4503599627370496) \<and>
         dollarsToCents (total pricing) = Finite (of_int (spec_minor_units f m)) \<and>
         spec_minor_units f m = 108 * (int f + 2 * int m) \<and>
         calculatePricing (Finite 2) (Finite 1) =
           \<lparr>subtotal = Finite 4, fee = fl (32 / 100), total = fl (432 / 100)\<rparr> \<and>
         dollarsToCents (total (calculatePricing (Finite 2) (Finite 1))) = Finite 432"
proof -
  have general: "subtotal p = Finite (spec_subtotal f' m') \<and>
         fee p = fl (spec_fee f' m') \<and>
         total p = js_plus (subtotal p) (fee p) \<and>
         (\<exists>t. total p = Finite t \<and>
              \<bar>t - spec_total f' m'\<bar> \<le> spec_total f' m' / 4503599627370496) \<and>
         dollarsToCents (total p) = Finite (of_int (spec_minor_units f' m')) \<and>
         spec_minor_units f' m' = 108 * (int f' + 2 * int m')"
    if pos: "0 < f' \<or> 0 < m'" and le: "f' + 2 * m' \<le> 2 ^ 44"
      and p: "p = calculatePricing (Finite (of_nat f')) (Finite (of_nat m'))"
    for f' m' :: nat and p
  proof -
    let ?S = "int f' + 2 * int m'"
    have S1: "1 \<le> ?S" using pos by linarith
    have "int (f' + 2 * m') \<le> 2 ^ 44"
      using le by (metis of_nat_le_iff of_nat_numeral of_nat_power)
    then have S2: "?S \<le> 2 ^ 44" by simp
    have sub: "js_plus (js_times (Finite (of_nat f')) FEMALE_TICKET_PRICE)
                 (js_times (Finite (of_nat m')) MALE_TICKET_PRICE) = Finite (of_int ?S)"
      using le by (rule subtotal_exact)
    have cents: "Math_round (js_times (js_times (Finite (of_int ?S)) FEE_PERCENTAGE) (Finite 100)) =
                   Finite (of_int (8 * ?S))"
      using S1 S2 by (rule fee_cents_rounds)
    from total_and_cents [OF S1 S2] obtain tv where
      tv: "js_plus (Finite (of_int ?S)) (js_divide (Finite (of_int (8 * ?S))) (Finite 100)) = Finite tv"
        "\<bar>tv - (of_int ?S + 8 * of_int ?S / 100)\<bar> \<le> (of_int ?S + 8 * of_int ?S / 100) / 4503599627370496"
        "dollarsToCents (Finite tv) = Finite (of_int (108 * ?S))"
      by blast
    have p_sub: "subtotal p = Finite (of_int ?S)"
      by (simp only: p calculatePricing_def Let_def sub PricingResult.simps)
    have p_fee: "fee p = js_divide (Finite (of_int (8 * ?S))) (Finite 100)"
      by (simp only: p calculatePricing_def Let_def sub cents PricingResult.simps)
    have p_tot: "total p = js_plus (subtotal p) (fee p)"
      by (simp only: p calculatePricing_def Let_def PricingResult.simps)
    have fee_fl: "js_divide (Finite (of_int (8 * ?S))) (Finite 100) = fl (spec_fee f' m')"
      by (simp add: spec_values(2))
    have tot_tv: "total p = Finite tv"
      by (simp only: p_tot p_sub p_fee tv(1))
    show ?thesis
      using tv(2,3) by (simp only: p_sub p_fee p_tot fee_fl [symmetric] spec_values tot_tv tv(1)) simp
  qed
  have ex: "calculatePricing (Finite 2) (Finite 1) =
           \<lparr>subtotal = Finite 4, fee = fl (32 / 100), total = fl (432 / 100)\<rparr> \<and>
         dollarsToCents (total (calculatePricing (Finite 2) (Finite 1))) = Finite 432"
  proof -
    let ?p = "calculatePricing (Finite 2) (Finite 1)"
    have p: "?p = calculatePricing (Finite (of_nat 2)) (Finite (of_nat 1))"
      by simp
    have g: "subtotal ?p = Finite (spec_subtotal 2 1) \<and>
         fee ?p = fl (spec_fee 2 1) \<and>
         total ?p = js_plus (subtotal ?p) (fee ?p) \<and>
         (\<exists>t. total ?p = Finite t \<and>
              \<bar>t - spec_total 2 1\<bar> \<le> spec_total 2 1 / 4503599627370496) \<and>
         dollarsToCents (total ?p) = Finite (of_int (spec_minor_units 2 1)) \<and>
         spec_minor_units 2 1 = 108 * (int 2 + 2 * int 1)"
      by (rule general [OF _ _ p]) simp_all
    have v: "spec_subtotal 2 1 = 4" "spec_fee 2 1 = 32 / 100" "of_int (spec_minor_units 2 1) = (432::rat)"
      by (simp_all add: spec_values)
    from g have s0: "subtotal ?p = Finite (spec_subtotal 2 1)"
      and f0: "fee ?p = fl (spec_fee 2 1)"
      and t0: "total ?p = js_plus (subtotal ?p) (fee ?p)"
      and c0: "dollarsToCents (total ?p) = Finite (of_int (spec_minor_units 2 1))"
      by blast+
    have s: "subtotal ?p = Finite 4" by (simp only: s0 v)
    have f: "fee ?p = fl (32 / 100)" by (simp only: f0 v)
    have t: "total ?p = fl (432 / 100)" by (simp only: t0 s f total_of_example)
    have c: "dollarsToCents (total ?p) = Finite 432" by (simp only: c0 v)
    have "?p = \<lparr>subtotal = subtotal ?p, fee = fee ?p, total = total ?p\<rparr>"
      by simp
    then have "?p = \<lparr>subtotal = Finite 4, fee = fl (32 / 100), total = fl (432 / 100)\<rparr>"
      by (simp only: s f t)
    from this c show ?thesis by (rule conjI)
  qed
  from general [OF assms] ex show ?thesis by blast
qed

theorem pricing_of_bounded_quantities_witness:
  "(0 < (3::nat) \<or> 0 < (0::nat)) \<and> (3::nat) + 2 * 0 \<le> 2 ^ 44 \<and>
   subtotal (calculatePricing (Finite (of_nat 3)) (Finite (of_nat 0))) = Finite 3 \<and>
   fee (calculatePricing (Finite (of_nat 3)) (Finite (of_nat 0))) = fl (24 / 100) \<and>
   dollarsToCents (total (calculatePricing (Finite (of_nat 3)) (Finite (of_nat 0)))) = Finite 324"
proof -
  let ?p = "calculatePricing (Finite (of_nat 3)) (Finite (of_nat 0))"
  have h1: "0 < (3::nat) \<or> 0 < (0::nat)" by simp
  have h2: "(3::nat) + 2 * 0 \<le> 2 ^ 44" by simp
  have v: "spec_subtotal 3 0 = 3" "spec_fee 3 0 = 24 / 100" "of_int (spec_minor_units 3 0) = (324::rat)"
    by (simp_all add: spec_values)
  from pricing_of_bounded_quantities [OF h1 h2 refl]
  have s0: "subtotal ?p = Finite (spec_subtotal 3 0)"
    and f0: "fee ?p = fl (spec_fee 3 0)"
    and c0: "dollarsToCents (total ?p) = Finite (of_int (spec_minor_units 3 0))"
    by blast+
  have s: "subtotal ?p = Finite 3" by (simp only: s0 v)
  have f: "fee ?p = fl (24 / 100)" by (simp only: f0 v)
  have c: "dollarsToCents (total ?p) = Finite 324" by (simp only: c0 v)
  from h1 h2 s f c show ?thesis by blast
qed

section \<open>Quantities taken from the metadata\<close>

lemma parseInt10_two: "parseInt10 ''2'' = Finite 2"
  using fl_of_int [of 2]
  by (simp add: parseInt10_def isWhiteSpace_def isDigit_def digit_value_def)

lemma or_default_missing: "v \<in> {None, Some []} \<Longrightarrow> or_default v d = d"
  by (auto simp: or_default_def)

text \<open>
  Claim C9, as stated, fails for a notification whose identifier is already processed:
  the handler then returns before it reads the metadata. After a first notification for
  \<open>pi_1\<close> with the quantities 2 and 1, a second one for \<open>pi_1\<close> without any metadata
  is acknowledged, makes no call of \<open>saveOrder\<close> and leaves the store as it was; the
  order held for \<open>pi_1\<close> has the quantity 2, not 0.
\<close>

theorem missing_quantities_counterexample:
  "map_of (metadata (data_object (demo_event []))) ''femaleQty'' = None \<and>
   fst (webhook_post (demo_ext []) (demo_request (Some ''t=1,v1=good''))
     (snd (webhook_post (demo_ext [(''femaleQty'', ''2''), (''maleQty'', ''1'')])
            (demo_request (Some ''t=1,v1=good'')) demo_world))) = send 200 (Received True) \<and>
   \<not> list_ex is_saveOrder
     (calls_since
       (snd (webhook_post (demo_ext [(''femaleQty'', ''2''), (''maleQty'', ''1'')])
              (demo_request (Some ''t=1,v1=good'')) demo_world))
       (snd (webhook_post (demo_ext []) (demo_request (Some ''t=1,v1=good''))
          (snd (webhook_post (demo_ext [(''femaleQty'', ''2''), (''maleQty'', ''1'')])
                 (demo_request (Some ''t=1,v1=good'')) demo_world))))) \<and>
   getOrderByPaymentIntentId ''pi_1''
     (orderStore (snd (webhook_post (demo_ext []) (demo_request (Some ''t=1,v1=good''))
        (snd (webhook_post (demo_ext [(''femaleQty'', ''2''), (''maleQty'', ''1'')])
               (demo_request (Some ''t=1,v1=good'')) demo_world))))) =
     Some (built_order (demo_intent [(''femaleQty'', ''2''), (''maleQty'', ''1'')]) demo_world) \<and>
   femaleQty (built_order (demo_intent [(''femaleQty'', ''2''), (''maleQty'', ''1'')]) demo_world) = Finite 2 \<and>
   Finite 2 \<noteq> Finite 0"
proof -
  let ?md = "[(''femaleQty'', ''2''), (''maleQty'', ''1'')]"
  let ?req = "demo_request (Some ''t=1,v1=good'')"
  let ?w1 = "snd (webhook_post (demo_ext ?md) ?req demo_world)"
  let ?p2 = "webhook_post (demo_ext []) ?req ?w1"
  have sig: "stripe_signature ?req = Some ''t=1,v1=good''"
    by (simp add: demo_request_def)
  have ne: "''t=1,v1=good'' \<noteq> []" by simp
  have ty: "type_Event (demo_event md) = ''payment_intent.succeeded''" for md
    by (simp add: demo_event_def)
  have obj: "data_object (demo_event md) = demo_intent md" for md
    by (simp add: demo_event_def)
  have pid: "id_PaymentIntent (demo_intent md) = ''pi_1''" for md
    by (simp add: demo_intent_def)
  have fresh: "\<not> isPaymentIntentProcessed (id_PaymentIntent (demo_intent ?md)) (orderStore demo_world)"
    using demo_fresh by (simp add: pid)
  have w1: "?w1 = handlePaymentIntentSucceeded (demo_intent ?md) demo_world"
    using webhook_post_verified [OF sig ne demo_verified, of ?md demo_world] by (simp add: ty obj)
  have store1: "orderStore ?w1 =
      saveOrder (built_order (demo_intent ?md) demo_world)
        (markPaymentIntentProcessed ''pi_1'' (orderStore demo_world))"
    by (simp add: w1 handle_fresh [OF fresh] pid)
  have marked: "isPaymentIntentProcessed (id_PaymentIntent (demo_intent [])) (orderStore ?w1)"
    by (simp add: store1 pid isPaymentIntentProcessed_def saveOrder_def markPaymentIntentProcessed_def)
  have p2: "?p2 = (send 200 (Received True), handlePaymentIntentSucceeded (demo_intent []) ?w1)"
    using webhook_post_verified [OF sig ne demo_verified, of "[]" ?w1] by (simp add: ty obj)
  have w2: "snd ?p2 = ?w1\<lparr>calls := calls ?w1 @ [OrderStore (IsPaymentIntentProcessed ''pi_1'')]\<rparr>"
    by (simp add: p2 handle_processed [OF marked] pid)
  have a: "map_of (metadata (data_object (demo_event []))) ''femaleQty'' = None"
    by (simp add: obj demo_intent_def)
  have b: "fst ?p2 = send 200 (Received True)"
    by (simp add: p2)
  have c: "\<not> list_ex is_saveOrder (calls_since ?w1 (snd ?p2))"
    by (simp add: w2)
  have d: "getOrderByPaymentIntentId ''pi_1'' (orderStore (snd ?p2)) =
             Some (built_order (demo_intent ?md) demo_world)"
    by (simp add: w2 store1 getOrderByPaymentIntentId_def saveOrder_def update_conv' built_order_def pid)
  have e: "femaleQty (built_order (demo_intent ?md) demo_world) = Finite 2"
    by (simp add: built_order_def demo_intent_def or_default_def parseInt10_two)
  from a b c d e show ?thesis by simp
qed

text \<open>
  Claim C9, amended. Let a notification carry a signature that verifies and the type
  \<open>payment_intent.succeeded\<close>, for an identifier that is not yet processed. Then the
  webhook saves an order under that identifier, whatever the metadata holds; where the
  key \<open>femaleQty\<close> is missing or has the empty string as its value the order has the
  female quantity 0, and likewise for \<open>maleQty\<close>.
\<close>

theorem missing_quantities_default_to_zero:
  assumes "stripe_signature request = Some signature" and "signature \<noteq> []"
    and "verifyWebhookSignature ext (rawBody request) signature = Inr event"
    and "type_Event event = ''payment_intent.succeeded''"
    and "pid = id_PaymentIntent (data_object event)"
    and "\<not> isPaymentIntentProcessed pid (orderStore w)"
    and "w' = snd (webhook_post ext request w)"
  shows "\<exists>order. getOrderByPaymentIntentId pid (orderStore w') = Some order \<and>
           list_ex (\<lambda>c. c = OrderStore (SaveOrder order)) (calls_since w w') \<and>
           paymentIntentId order = pid \<and>
           (map_of (metadata (data_object event)) ''femaleQty'' \<in> {None, Some []} \<longrightarrow>
              femaleQty order = Finite 0) \<and>
           (map_of (metadata (data_object event)) ''maleQty'' \<in> {None, Some []} \<longrightarrow>
              maleQty order = Finite 0)"
proof -
  let ?pi = "data_object event"
  let ?order = "built_order ?pi w"
  have w': "w' = handlePaymentIntentSucceeded ?pi w"
    using webhook_post_verified [OF assms(1-3), of w] assms(4,7) by simp
  have fresh: "\<not> isPaymentIntentProcessed (id_PaymentIntent ?pi) (orderStore w)"
    using assms(5,6) by simp
  have look: "getOrderByPaymentIntentId pid (orderStore w') = Some ?order"
    by (simp add: w' handle_fresh [OF fresh] getOrderByPaymentIntentId_def saveOrder_def
          update_conv' built_order_def assms(5))
  have saved: "list_ex (\<lambda>c. c = OrderStore (SaveOrder ?order)) (calls_since w w')"
    by (simp add: w' handle_fresh [OF fresh])
  have ident: "paymentIntentId ?order = pid"
    by (simp add: built_order_def assms(5))
  have female: "map_of (metadata ?pi) ''femaleQty'' \<in> {None, Some []} \<longrightarrow> femaleQty ?order = Finite 0"
    by (auto simp: built_order_def or_default_def parseInt10_zero)
  have male: "map_of (metadata ?pi) ''maleQty'' \<in> {None, Some []} \<longrightarrow> maleQty ?order = Finite 0"
    by (auto simp: built_order_def or_default_def parseInt10_zero)
  from look saved ident female male show ?thesis by blast
qed

theorem missing_quantities_default_to_zero_witness:
  "stripe_signature (demo_request (Some ''t=1,v1=good'')) = Some ''t=1,v1=good'' \<and>
   verifyWebhookSignature (demo_ext [(''femaleQty'', [])]) (rawBody (demo_request (Some ''t=1,v1=good'')))
     ''t=1,v1=good'' = Inr (demo_event [(''femaleQty'', [])]) \<and>
   type_Event (demo_event [(''femaleQty'', [])]) = ''payment_intent.succeeded'' \<and>
   \<not> isPaymentIntentProcessed ''pi_1'' (orderStore demo_world) \<and>
   map_of (metadata (data_object (demo_event [(''femaleQty'', [])]))) ''femaleQty'' = Some [] \<and>
   map_of (metadata (data_object (demo_event [(''femaleQty'', [])]))) ''maleQty'' = None \<and>
   (\<exists>order. getOrderByPaymentIntentId ''pi_1''
        (orderStore (snd (webhook_post (demo_ext [(''femaleQty'', [])])
           (demo_request (Some ''t=1,v1=good'')) demo_world))) = Some order \<and>
      femaleQty order = Finite 0 \<and> maleQty order = Finite 0)"
proof -
  let ?md = "[(''femaleQty'', [])] :: (string \<times> string) list"
  let ?req = "demo_request (Some ''t=1,v1=good'')"
  have sig: "stripe_signature ?req = Some ''t=1,v1=good''"
    by (simp add: demo_request_def)
  have ne: "''t=1,v1=good'' \<noteq> []" by simp
  have ty: "type_Event (demo_event ?md) = ''payment_intent.succeeded''"
    by (simp add: demo_event_def)
  have pid: "''pi_1'' = id_PaymentIntent (data_object (demo_event ?md))"
    by (simp add: demo_event_def demo_intent_def)
  have f: "map_of (metadata (data_object (demo_event ?md))) ''femaleQty'' = Some []"
    by (simp add: demo_event_def demo_intent_def)
  have m: "map_of (metadata (data_object (demo_event ?md))) ''maleQty'' = None"
    by (simp add: demo_event_def demo_intent_def)
  from missing_quantities_default_to_zero
         [OF sig ne demo_verified ty pid conjunct1 [OF demo_fresh] refl]
  obtain order where
    o: "getOrderByPaymentIntentId ''pi_1''
          (orderStore (snd (webhook_post (demo_ext ?md) ?req demo_world))) = Some order"
      "map_of (metadata (data_object (demo_event ?md))) ''femaleQty'' \<in> {None, Some []} \<longrightarrow>
         femaleQty order = Finite 0"
      "map_of (metadata (data_object (demo_event ?md))) ''maleQty'' \<in> {None, Some []} \<longrightarrow>
         maleQty order = Finite 0"
    by blast
  from o(2) f have fq: "femaleQty order = Finite 0" by simp
  from o(3) m have mq: "maleQty order = Finite 0" by simp
  from sig demo_verified [of ?md] ty demo_fresh f m o(1) fq mq show ?thesis
    by blast
qed

end
